theory Spec2Isabelle
  imports Main "HOL-Library.Word" "HOL-Library.Signed_Division" "HOL-Library.Monad_Syntax"
begin

unbundle bit_operations_syntax

section \<open>The machine: port I/O, console, memory\<close>

text \<open>
  The driver of \<^verbatim>\<open>src/kernel/device/ata.c\<close> talks to the drive through x86 I/O ports.
  What the kernel does to the outside world is recorded as a list of events, the most
  recent event first. The drive is any deterministic function of that history: what a
  port read returns may depend on everything written and read before.
\<close>

type_synonym port = "16 word"

datatype event =
    In8 port "8 word"
  | In16 port "16 word"
  | Out8 port "8 word"
  | Out16 port "16 word"
  | Print string

record hardware =
  resp8 :: "event list \<Rightarrow> port \<Rightarrow> 8 word"
  resp16 :: "event list \<Rightarrow> port \<Rightarrow> 16 word"

text \<open>
  Modelled from the spec: the port primitives of \<^verbatim>\<open>kernel/io.h\<close> (absent from the
  sources): "byte/word port read and write, and block (string) port read/write", atomic
  per access and strictly ordered. \<open>insw\<close> stores each 16-bit word at the destination
  little-endian, as the x86 string instruction does.
\<close>

definition inb :: "hardware \<Rightarrow> port \<Rightarrow> event list \<Rightarrow> 8 word \<times> event list" where
  "inb hw p tr = (let v = resp8 hw tr p in (v, In8 p v # tr))"

definition inw :: "hardware \<Rightarrow> port \<Rightarrow> event list \<Rightarrow> 16 word \<times> event list" where
  "inw hw p tr = (let v = resp16 hw tr p in (v, In16 p v # tr))"

definition outb :: "port \<Rightarrow> 8 word \<Rightarrow> event list \<Rightarrow> event list" where
  "outb p v tr = Out8 p v # tr"

primrec outsw :: "port \<Rightarrow> 16 word list \<Rightarrow> nat \<Rightarrow> event list \<Rightarrow> event list" where
  "outsw p ws 0 tr = tr"
| "outsw p ws (Suc n) tr =
     (case ws of [] \<Rightarrow> tr | w # ws' \<Rightarrow> outsw p ws' n (Out16 p w # tr))"

type_synonym addr = "32 word"
type_synonym memory = "addr \<Rightarrow> 8 word"

primrec insw :: "hardware \<Rightarrow> port \<Rightarrow> addr \<Rightarrow> nat \<Rightarrow> event list \<times> memory \<Rightarrow> event list \<times> memory" where
  "insw hw p buf 0 tm = tm"
| "insw hw p buf (Suc n) tm =
     (let (w, tr') = inw hw p (fst tm);
          m' = (snd tm)(buf := ucast w, buf + 1 := ucast (drop_bit 8 w))
      in insw hw p (buf + 2) n (tr', m'))"

text \<open>Modelled from the spec: \<open>printf\<close> writes to the kernel console; only the format
  string is recorded.\<close>

definition printf :: "string \<Rightarrow> event list \<Rightarrow> event list" where
  "printf msg tr = Print msg # tr"

section \<open>Constants and structures of ata.c\<close>

definition ATA_DATA_PORT :: port where "ATA_DATA_PORT = 0"
definition ATA_FEAT_PORT :: port where "ATA_FEAT_PORT = 1"
definition ATA_SECTOR_COUNT_PORT :: port where "ATA_SECTOR_COUNT_PORT = 2"
definition ATA_LBALO_PORT :: port where "ATA_LBALO_PORT = 3"
definition ATA_LBAMID_PORT :: port where "ATA_LBAMID_PORT = 4"
definition ATA_LBAHI_PORT :: port where "ATA_LBAHI_PORT = 5"
definition ATA_DRIVE_PORT :: port where "ATA_DRIVE_PORT = 6"
definition ATA_COMMAND_PORT :: port where "ATA_COMMAND_PORT = 7"

definition ATA_ISBSY :: "8 word \<Rightarrow> bool" where
  "ATA_ISBSY status = (status AND push_bit 7 1 \<noteq> 0)"

definition ATA_ISRDY :: "8 word \<Rightarrow> bool" where
  "ATA_ISRDY status = (status AND push_bit 6 1 \<noteq> 0)"

definition ATA_ISDRQ :: "8 word \<Rightarrow> bool" where
  "ATA_ISDRQ status = (status AND push_bit 3 1 \<noteq> 0)"

definition ATA_ISERR :: "8 word \<Rightarrow> bool" where
  "ATA_ISERR status = (status AND 1 \<noteq> 0)"

definition ATA_CMD_IDENTIFY :: "8 word" where "ATA_CMD_IDENTIFY = 0xEC"
definition ATA_CMD_PACKET_IDENTIFY :: "8 word" where "ATA_CMD_PACKET_IDENTIFY = 0xA1"

text \<open>\<open>enum ata_device_type\<close>: an object of the type holds an \<open>int\<close>, and an uninitialised
  one holds any; the enumerators are the values 0 to 4.\<close>

type_synonym ata_device_type = "32 word"

definition ATA_TYPE_UNKNOWN :: ata_device_type where "ATA_TYPE_UNKNOWN = 0"
definition ATA_TYPE_PATAPI :: ata_device_type where "ATA_TYPE_PATAPI = 1"
definition ATA_TYPE_SATAPI :: ata_device_type where "ATA_TYPE_SATAPI = 2"
definition ATA_TYPE_PATA :: ata_device_type where "ATA_TYPE_PATA = 3"
definition ATA_TYPE_SATA :: ata_device_type where "ATA_TYPE_SATA = 4"

record ata_device =
  type :: ata_device_type
  base_port :: "16 word"
  control_port :: "16 word"
  slave_bit :: "8 word"
  lba48_support :: "8 word"
  lba48_total :: "64 word"
  lba28_total :: "32 word"
  pos :: "32 word"

text \<open>
  Modelled from the spec: \<^verbatim>\<open>kernel/device/device.h\<close> is absent. \<open>result_t\<close> is taken as
  a 32-bit integer (\<open>atapi_read_block\<close> returns both \<open>-1\<close> and a byte count through it) and
  \<open>OK\<close> as its success value. A generic device has a name, a coarse kind, the opaque
  backing handle \<open>p\<close> and its three operations; the handle is the address of a
  \<open>struct ata_device\<close>.
\<close>

type_synonym result_t = "32 word"

definition OK :: result_t where "OK = 0"

datatype device_kind = DEVICE_RANDOM

datatype device_op = Ata_read | Ata_write | Ata_seek

record device =
  dev_type :: device_kind
  name :: string
  p :: addr
  read_op :: device_op
  write_op :: device_op
  seek_op :: device_op

text \<open>
  The kernel state: the I/O history, the byte memory and the device table. The memory is
  one flat array of bytes: the callers' buffers and the \<open>struct ata_device\<close> objects live
  in it side by side, so a store through a buffer pointer can land in a descriptor. The
  device table belongs to \<^verbatim>\<open>kernel/device/device.c\<close> (absent); it is kept as a list of
  its own, and nothing is said here about where it lies in memory.
\<close>

record kstate =
  io :: "event list"
  mem :: memory
  devices :: "device list"

subsection \<open>struct ata_device in memory\<close>

text \<open>
  The kernel is built with \<^verbatim>\<open>gcc -m32\<close> (the Makefile), so the layout is that of the i386
  System V ABI: little-endian, \<open>enum\<close> as a 4-byte \<open>int\<close>, \<open>uint64_t\<close> aligned to 4 bytes.
  The fields of \<open>struct ata_device\<close> are at offsets 0 (\<open>type\<close>), 4 (\<open>base_port\<close>),
  6 (\<open>control_port\<close>), 8 (\<open>slave_bit\<close>), 9 (\<open>lba48_support\<close>), 12 (\<open>lba48_total\<close>),
  20 (\<open>lba28_total\<close>) and 24 (\<open>pos\<close>); bytes 10 and 11 are padding and the size is 28.
\<close>

definition load16 :: "memory \<Rightarrow> addr \<Rightarrow> 16 word" where
  "load16 m a = ucast (m a) OR push_bit 8 (ucast (m (a + 1)))"

definition load32 :: "memory \<Rightarrow> addr \<Rightarrow> 32 word" where
  "load32 m a = ucast (m a) OR push_bit 8 (ucast (m (a + 1)))
                OR push_bit 16 (ucast (m (a + 2))) OR push_bit 24 (ucast (m (a + 3)))"

definition load64 :: "memory \<Rightarrow> addr \<Rightarrow> 64 word" where
  "load64 m a = ucast (m a) OR push_bit 8 (ucast (m (a + 1)))
                OR push_bit 16 (ucast (m (a + 2))) OR push_bit 24 (ucast (m (a + 3)))
                OR push_bit 32 (ucast (m (a + 4))) OR push_bit 40 (ucast (m (a + 5)))
                OR push_bit 48 (ucast (m (a + 6))) OR push_bit 56 (ucast (m (a + 7)))"

definition store16 :: "addr \<Rightarrow> 16 word \<Rightarrow> memory \<Rightarrow> memory" where
  "store16 a v m = m(a := ucast v, a + 1 := ucast (drop_bit 8 v))"

definition store32 :: "addr \<Rightarrow> 32 word \<Rightarrow> memory \<Rightarrow> memory" where
  "store32 a v m = m(a := ucast v, a + 1 := ucast (drop_bit 8 v),
                     a + 2 := ucast (drop_bit 16 v), a + 3 := ucast (drop_bit 24 v))"

definition sizeof_ata_device :: nat where "sizeof_ata_device = 28"

definition load_ata_device :: "memory \<Rightarrow> addr \<Rightarrow> ata_device" where
  "load_ata_device m a =
     \<lparr>type = load32 m a,
      base_port = load16 m (a + 4),
      control_port = load16 m (a + 6),
      slave_bit = m (a + 8),
      lba48_support = m (a + 9),
      lba48_total = load64 m (a + 12),
      lba28_total = load32 m (a + 20),
      pos = load32 m (a + 24)\<rparr>"

text \<open>\<open>ata_mem s a\<close>: the \<open>struct ata_device\<close> read through a pointer \<open>a\<close>.\<close>

definition ata_mem :: "kstate \<Rightarrow> addr \<Rightarrow> ata_device" where
  "ata_mem s a = load_ata_device (mem s) a"

text \<open>The stores \<open>d->type = v\<close>, \<open>d->base_port = v\<close>, \<open>d->control_port = v\<close>,
  \<open>d->slave_bit = v\<close> and \<open>d->pos = v\<close> through a pointer \<open>d\<close>.\<close>

definition ata_set_type :: "addr \<Rightarrow> ata_device_type \<Rightarrow> kstate \<Rightarrow> kstate" where
  "ata_set_type d v s = s\<lparr>mem := store32 d v (mem s)\<rparr>"

definition ata_set_base_port :: "addr \<Rightarrow> 16 word \<Rightarrow> kstate \<Rightarrow> kstate" where
  "ata_set_base_port d v s = s\<lparr>mem := store16 (d + 4) v (mem s)\<rparr>"

definition ata_set_control_port :: "addr \<Rightarrow> 16 word \<Rightarrow> kstate \<Rightarrow> kstate" where
  "ata_set_control_port d v s = s\<lparr>mem := store16 (d + 6) v (mem s)\<rparr>"

definition ata_set_slave_bit :: "addr \<Rightarrow> 8 word \<Rightarrow> kstate \<Rightarrow> kstate" where
  "ata_set_slave_bit d v s = s\<lparr>mem := (mem s)(d + 8 := v)\<rparr>"

definition ata_set_pos :: "addr \<Rightarrow> 32 word \<Rightarrow> kstate \<Rightarrow> kstate" where
  "ata_set_pos d v s = s\<lparr>mem := store32 (d + 24) v (mem s)\<rparr>"


section \<open>Private functions of ata.c\<close>

subsection \<open>Simple inline functions\<close>

definition ata_device_is_packet :: "ata_device \<Rightarrow> bool" where
  "ata_device_is_packet d = (type d = ATA_TYPE_PATAPI \<or> type d = ATA_TYPE_SATAPI)"

text \<open>\<open>ata_wait n\<close>: \<open>n\<close> dummy reads of port \<open>0x3F6\<close>.\<close>

primrec ata_wait :: "hardware \<Rightarrow> nat \<Rightarrow> event list \<Rightarrow> event list" where
  "ata_wait hw 0 tr = tr"
| "ata_wait hw (Suc n) tr = ata_wait hw n (snd (inb hw 0x3F6 tr))"

definition ata_read_status :: "hardware \<Rightarrow> ata_device \<Rightarrow> event list \<Rightarrow> 8 word \<times> event list" where
  "ata_read_status hw d tr = inb hw (base_port d + ATA_COMMAND_PORT) tr"

text \<open>The two \<open>do ... while\<close> polls. They have no bound in the source, so they are partial:
  \<open>None\<close> is the loop that never leaves.\<close>

partial_function (option) ata_wait_bsy_clear ::
  "hardware \<Rightarrow> ata_device \<Rightarrow> event list \<Rightarrow> (8 word \<times> event list) option" where
  "ata_wait_bsy_clear hw d tr =
     (let (status, tr') = ata_read_status hw d tr
      in if ATA_ISBSY status then ata_wait_bsy_clear hw d tr' else Some (status, tr'))"

partial_function (option) ata_wait_drq_set ::
  "hardware \<Rightarrow> ata_device \<Rightarrow> event list \<Rightarrow> (8 word \<times> event list) option" where
  "ata_wait_drq_set hw d tr =
     (let (status, tr') = ata_read_status hw d tr
      in if \<not> ATA_ISDRQ status \<and> \<not> ATA_ISERR status then ata_wait_drq_set hw d tr'
         else Some (status, tr'))"

definition ata_software_reset :: "ata_device \<Rightarrow> event list \<Rightarrow> event list" where
  "ata_software_reset d tr = outb (control_port d) 0 (outb (control_port d) 4 tr)"

definition ata_select_drive :: "hardware \<Rightarrow> ata_device \<Rightarrow> event list \<Rightarrow> event list" where
  "ata_select_drive hw d tr =
     ata_wait hw 5 (outb (base_port d + ATA_DRIVE_PORT) (0xA0 OR slave_bit d) tr)"

definition ata_pio_read16 :: "hardware \<Rightarrow> ata_device \<Rightarrow> event list \<Rightarrow> 16 word \<times> event list" where
  "ata_pio_read16 hw d tr = inw hw (base_port d + ATA_DATA_PORT) tr"

subsection \<open>Low level functions\<close>

text \<open>The three \<open>while\<close> polls of \<open>atapi_read_block\<close> (lines 166, 169 and 190), in the
  order of the source.\<close>

partial_function (option) atapi_read_block_wait_bsy ::
  "hardware \<Rightarrow> ata_device \<Rightarrow> event list \<Rightarrow> (8 word \<times> event list) option" where
  "atapi_read_block_wait_bsy hw dev tr =
     (let (status, tr') = inb hw (base_port dev + ATA_COMMAND_PORT) tr
      in if status AND 0x80 \<noteq> 0 then atapi_read_block_wait_bsy hw dev tr'
         else Some (status, tr'))"

partial_function (option) atapi_read_block_wait_drq ::
  "hardware \<Rightarrow> ata_device \<Rightarrow> event list \<Rightarrow> (8 word \<times> event list) option" where
  "atapi_read_block_wait_drq hw dev tr =
     (let (status, tr') = inb hw (base_port dev + ATA_COMMAND_PORT) tr
      in if \<not> (status AND 0x8 \<noteq> 0) \<and> \<not> (status AND 0x1 \<noteq> 0)
         then atapi_read_block_wait_drq hw dev tr'
         else Some (status, tr'))"

partial_function (option) atapi_read_block_wait_done ::
  "hardware \<Rightarrow> ata_device \<Rightarrow> event list \<Rightarrow> (8 word \<times> event list) option" where
  "atapi_read_block_wait_done hw dev tr =
     (let (status, tr') = inb hw (base_port dev + ATA_COMMAND_PORT) tr
      in if status AND 0x88 \<noteq> 0 then atapi_read_block_wait_done hw dev tr'
         else Some (status, tr'))"

text \<open>\<open>(uint16_t *) read_cmd\<close>: the byte array seen as little-endian 16-bit words.\<close>

fun le_words16 :: "8 word list \<Rightarrow> 16 word list" where
  "le_words16 (a # b # bs) = (ucast a OR push_bit 8 (ucast b)) # le_words16 bs"
| "le_words16 bs = []"

text \<open>
  \<open>atapi_read_block\<close>. \<open>dev\<close> is the pointer the source receives; its fields are read from
  memory where the source reads them, so the poll after \<open>insw\<close> sees what \<open>insw\<close> stored.
  The operands of the \<open>|\<close> that builds \<open>size\<close> are read left to right (LBA-high first).
  \<open>size\<close> is an \<open>int32_t\<close>; \<open>size / 2\<close> is C's truncating division.
\<close>

definition atapi_read_block ::
  "hardware \<Rightarrow> addr \<Rightarrow> 32 word \<Rightarrow> addr \<Rightarrow> 32 word \<Rightarrow> kstate \<Rightarrow> (result_t \<times> kstate) option" where
  "atapi_read_block hw dev lba buffer maxlen s = do {
     let tr = outb (base_port (ata_mem s dev) + ATA_DRIVE_PORT) (slave_bit (ata_mem s dev)) (io s);
     let tr = ata_wait hw 4 tr;
     let tr = outb (base_port (ata_mem s dev) + ATA_FEAT_PORT) 0 tr;
     let tr = outb (base_port (ata_mem s dev) + ATA_LBAMID_PORT) (ucast (maxlen AND 0xFF)) tr;
     let tr = outb (base_port (ata_mem s dev) + ATA_LBAHI_PORT) (ucast (drop_bit 8 maxlen)) tr;
     let tr = outb (base_port (ata_mem s dev) + ATA_COMMAND_PORT) 0xA0 tr;
     (status, tr) \<leftarrow> atapi_read_block_wait_bsy hw (ata_mem s dev) tr;
     (status, tr) \<leftarrow> atapi_read_block_wait_drq hw (ata_mem s dev) tr;
     if status AND 0x1 \<noteq> 0 then Some (- 1, s\<lparr>io := tr\<rparr>)
     else do {
       let read_cmd = [0xA8, 0,
                       ucast (drop_bit 0x18 lba AND 0xFF),
                       ucast (drop_bit 0x10 lba AND 0xFF),
                       ucast (drop_bit 0x08 lba AND 0xFF),
                       ucast (drop_bit 0x00 lba AND 0xFF),
                       0, 0, 0, 1, 0, 0];
       let tr = outsw (base_port (ata_mem s dev)) (le_words16 read_cmd) 6 tr;
       let (hi, tr) = inb hw (base_port (ata_mem s dev) + ATA_LBAHI_PORT) tr;
       let (mid, tr) = inb hw (base_port (ata_mem s dev) + ATA_LBAMID_PORT) tr;
       let size = push_bit 8 (ucast hi) OR ucast mid;
       let (tr, m) = insw hw (base_port (ata_mem s dev)) buffer (nat (sint size sdiv 2)) (tr, mem s);
       let s = s\<lparr>mem := m\<rparr>;
       (status, tr) \<leftarrow> atapi_read_block_wait_done hw (ata_mem s dev) tr;
       Some (size, s\<lparr>io := tr\<rparr>)
     }
   }"

text \<open>The loop of \<open>ata_cmd_identify\<close> that reads the 256 data words.\<close>

function ata_cmd_identify_read ::
  "hardware \<Rightarrow> ata_device \<Rightarrow> nat \<Rightarrow> (nat \<Rightarrow> 16 word) \<times> event list \<Rightarrow> (nat \<Rightarrow> 16 word) \<times> event list" where
  "ata_cmd_identify_read hw d i bt =
     (if i < 256
      then (let (w, tr') = ata_pio_read16 hw d (snd bt)
            in ata_cmd_identify_read hw d (Suc i) ((fst bt)(i := w), tr'))
      else bt)"
  by pat_completeness auto
termination
  by (relation "measure (\<lambda>(hw, d, i, bt). 256 - i)") (auto split: prod.splits)

declare ata_cmd_identify_read.simps [simp del]

text \<open>\<open>ata_cmd_identify\<close>: the result is the return value, the buffer (an array of 256
  words, here a function of the index) and the I/O history.\<close>

definition ata_cmd_identify ::
  "hardware \<Rightarrow> ata_device \<Rightarrow> (nat \<Rightarrow> 16 word) \<Rightarrow> event list
     \<Rightarrow> (8 word \<times> (nat \<Rightarrow> 16 word) \<times> event list) option" where
  "ata_cmd_identify hw d buffer tr0 = do {
     let tr = ata_select_drive hw d tr0;
     let tr = outb (base_port d + ATA_SECTOR_COUNT_PORT) 0 tr;
     let tr = outb (base_port d + ATA_LBALO_PORT) 0 tr;
     let tr = outb (base_port d + ATA_LBAMID_PORT) 0 tr;
     let tr = outb (base_port d + ATA_LBAHI_PORT) 0 tr;
     let tr = (if ata_device_is_packet d
               then outb (base_port d + ATA_COMMAND_PORT) ATA_CMD_PACKET_IDENTIFY tr
               else outb (base_port d + ATA_COMMAND_PORT) ATA_CMD_IDENTIFY tr);
     (status, tr) \<leftarrow> ata_wait_bsy_clear hw d tr;
     if status = 0 then Some (0, buffer, tr)
     else if ATA_ISERR status
     then Some (0, buffer, printf ''[ATA] Error after sending IDENTIFY.'' tr)
     else do {
       let (lbamid, tr) = inb hw (base_port d + ATA_LBAMID_PORT) tr;
       let (lbahi, tr) = inb hw (base_port d + ATA_LBAHI_PORT) tr;
       if lbamid \<noteq> 0 \<or> lbahi \<noteq> 0
       then Some (0, buffer, printf ''[ATA] No ATA device\<newline>'' tr)
       else do {
         (status, tr) \<leftarrow> ata_wait_drq_set hw d tr;
         if ATA_ISERR status then Some (0, buffer, printf ''[ATA] Error\<newline>'' tr)
         else do {
           let (buffer, tr) = ata_cmd_identify_read hw d 0 (buffer, tr);
           Some (1, buffer, tr)
         }
       }
     }
   }"

text \<open>
  \<open>ata_detect\<close>. \<open>device\<close> is the address of the caller's \<open>struct ata_device\<close>; the source
  stores the three arguments into it, and stores \<open>type\<close> only in the four branches of the
  signature test. \<open>buffer0\<close> is the content of the local array \<open>buffer\<close> when the function
  is entered: the source does not initialise it.
\<close>

definition ata_detect ::
  "hardware \<Rightarrow> 16 word \<Rightarrow> 16 word \<Rightarrow> 8 word \<Rightarrow> addr \<Rightarrow> (nat \<Rightarrow> 16 word) \<Rightarrow> kstate
     \<Rightarrow> (8 word \<times> kstate) option" where
  "ata_detect hw bport cport sbit device buffer0 s0 = do {
     let s = ata_set_base_port device bport s0;
     let s = ata_set_control_port device cport s;
     let s = ata_set_slave_bit device sbit s;
     let tr = ata_software_reset (ata_mem s device) (io s);
     (status, tr) \<leftarrow> ata_wait_bsy_clear hw (ata_mem s device) tr;
     let tr = (if \<not> ATA_ISRDY status
               then printf ''[ATA] [ERROR] Device not ready. Status : %d\<newline>'' tr else tr);
     let (sector_mid, tr) = inb hw (bport + ATA_LBAMID_PORT) tr;
     let (sector_hi, tr) = inb hw (bport + ATA_LBAHI_PORT) tr;
     let s = (if sector_mid = 0x14 \<and> sector_hi = 0xEB
              then ata_set_type device ATA_TYPE_PATAPI s
              else if sector_mid = 0x69 \<and> sector_hi = 0x96
              then ata_set_type device ATA_TYPE_SATAPI s
              else if sector_mid = 0 \<and> sector_hi = 0
              then ata_set_type device ATA_TYPE_PATA s
              else if sector_mid = 0x3C \<and> sector_hi = 0xC3
              then ata_set_type device ATA_TYPE_SATA s
              else s);
     let tr = (if ata_device_is_packet (ata_mem s device)
               then printf ''[ATA] Packet device found.\<newline>'' tr else tr);
     (identified, buffer, tr) \<leftarrow> ata_cmd_identify hw (ata_mem s device) buffer0 tr;
     let tr = (if identified = 0 then printf ''Error while identifying device\<newline>'' tr else tr);
     if ata_device_is_packet (ata_mem s device)
     then (if \<not> (buffer 0 AND push_bit 15 1 \<noteq> 0) \<and> \<not> (buffer 0 AND push_bit 14 1 \<noteq> 0)
           then Some (0, s\<lparr>io := printf ''Invalid ATAPI device.\<newline>'' tr\<rparr>)
           else Some (1, s\<lparr>io := printf ''Identification done\<newline>'' tr\<rparr>))
     else (if buffer 0 AND push_bit 15 1 \<noteq> 0
           then Some (0, s\<lparr>io := printf ''Invalid ATA device.\<newline>'' tr\<rparr>)
           else Some (1, s\<lparr>io := printf ''Identification done\<newline>'' tr\<rparr>))
   }"

subsection \<open>High level functions\<close>

text \<open>
  \<open>ata_read\<close>: \<open>*size\<close> goes in as the capacity and comes out as whatever
  \<open>atapi_read_block\<close> returned; the result is the return value, the new \<open>*size\<close> and the
  state.
\<close>

definition ata_read ::
  "hardware \<Rightarrow> device \<Rightarrow> 32 word \<Rightarrow> addr \<Rightarrow> kstate \<Rightarrow> (result_t \<times> 32 word \<times> kstate) option" where
  "ata_read hw device sz out s = do {
     let ata_dev = p device;
     (r, s') \<leftarrow> atapi_read_block hw ata_dev (pos (ata_mem s ata_dev)) out sz s;
     Some (OK, r, s')
   }"

text \<open>
  \<open>ata_write\<close> has an empty body and no \<open>return\<close>: what the caller receives is whatever the
  return register holds, here the argument \<open>junk\<close>.
\<close>

definition ata_write ::
  "result_t \<Rightarrow> device \<Rightarrow> 32 word \<Rightarrow> addr \<Rightarrow> kstate \<Rightarrow> result_t \<times> 32 word \<times> kstate" where
  "ata_write junk device sz out s = (junk, sz, s)"

definition ata_seek :: "device \<Rightarrow> 32 word \<Rightarrow> kstate \<Rightarrow> result_t \<times> kstate" where
  "ata_seek device posn s = (OK, ata_set_pos (p device) posn s)"

text \<open>
  Modelled from the spec: \<open>device_register\<close> (\<^verbatim>\<open>kernel/device/device.c\<close>, absent):
  "\<open>register(device)\<close> fails if the name already exists or the table is full". The table
  keeps a copy of the device. \<open>DEVICE_NAME_MAX\<close> and the capacity of the table are not in
  the sources and are parameters.
\<close>

record device_limits =
  DEVICE_NAME_MAX :: nat
  DEVICE_MAX :: nat

datatype register_result = Registered | DuplicateName | TableFull

definition device_register :: "device_limits \<Rightarrow> device \<Rightarrow> kstate \<Rightarrow> register_result \<times> kstate" where
  "device_register lim dev s =
     (if name dev \<in> set (map name (devices s)) then (DuplicateName, s)
      else if DEVICE_MAX lim \<le> length (devices s) then (TableFull, s)
      else (Registered, s\<lparr>devices := devices s @ [dev]\<rparr>))"

definition ata_register_device :: "device_limits \<Rightarrow> string \<Rightarrow> addr \<Rightarrow> kstate \<Rightarrow> kstate" where
  "ata_register_device lim nm ata_dev s =
     (let dev = \<lparr>dev_type = DEVICE_RANDOM, name = take (DEVICE_NAME_MAX lim) nm, p = ata_dev,
                 read_op = Ata_read, write_op = Ata_write, seek_op = Ata_seek\<rparr>;
          s = s\<lparr>io := printf ''Device registered : %s\<newline>'' (io s)\<rparr>
      in snd (device_register lim dev s))"

section \<open>Public functions\<close>

text \<open>
  \<open>ata_install\<close>. \<open>ata_dev\<close> is the address of the one local \<open>struct ata_device\<close> of the
  function; \<open>bufs k\<close> is the uninitialised content of \<open>ata_detect\<close>'s local array in the
  \<open>k\<close>-th call. The local is an automatic object: when the function returns its lifetime
  ends and its 28 bytes no longer hold the descriptor. What they hold from then on (the
  stack slot is reused) is the argument \<open>dead\<close>.
\<close>

definition end_of_lifetime :: "addr \<Rightarrow> nat \<Rightarrow> memory \<Rightarrow> kstate \<Rightarrow> kstate" where
  "end_of_lifetime a len dead s =
     s\<lparr>mem := (\<lambda>x. if unat (x - a) < len then dead x else mem s x)\<rparr>"

definition ata_install ::
  "hardware \<Rightarrow> device_limits \<Rightarrow> addr \<Rightarrow> (nat \<Rightarrow> nat \<Rightarrow> 16 word) \<Rightarrow> memory \<Rightarrow> kstate
     \<Rightarrow> kstate option" where
  "ata_install hw lim ata_dev bufs dead s = do {
     (r, s) \<leftarrow> ata_detect hw 0x1F0 0x3F6 0 ata_dev (bufs 0) s;
     let s = (if r \<noteq> 0 then ata_register_device lim ''ATA-0'' ata_dev s else s);
     (r, s) \<leftarrow> ata_detect hw 0x1F0 0x3F6 (push_bit 4 1) ata_dev (bufs 1) s;
     let s = (if r \<noteq> 0 then ata_register_device lim ''ATA-1'' ata_dev s else s);
     (r, s) \<leftarrow> ata_detect hw 0x170 0x376 0 ata_dev (bufs 2) s;
     let s = (if r \<noteq> 0 then ata_register_device lim ''ATA-2'' ata_dev s else s);
     (r, s) \<leftarrow> ata_detect hw 0x170 0x376 (push_bit 4 1) ata_dev (bufs 3) s;
     let s = (if r \<noteq> 0 then ata_register_device lim ''ATA-3'' ata_dev s else s);
     Some (end_of_lifetime ata_dev sizeof_ata_device dead s)
   }"

section \<open>Observations on a run\<close>

text \<open>
  What a call did is read off the I/O history and the memory: the number of 16-bit words
  read and their values, the words written, the events a call added to the history
  (\<open>call_events\<close>, most recent first) and the words it read in the order they came
  (\<open>words_read\<close>), and whether an address lies in the first \<open>len\<close> bytes of a buffer
  (address arithmetic wraps at 32 bits, as the store of \<open>insw\<close> does).
\<close>

fun in16_count :: "event list \<Rightarrow> nat" where
  "in16_count [] = 0"
| "in16_count (In16 q v # tr) = Suc (in16_count tr)"
| "in16_count (e # tr) = in16_count tr"

fun in16_values :: "event list \<Rightarrow> 16 word list" where
  "in16_values [] = []"
| "in16_values (In16 q v # tr) = v # in16_values tr"
| "in16_values (e # tr) = in16_values tr"

fun out16_values :: "event list \<Rightarrow> 16 word list" where
  "out16_values [] = []"
| "out16_values (Out16 q v # tr) = v # out16_values tr"
| "out16_values (e # tr) = out16_values tr"

definition call_events :: "kstate \<Rightarrow> kstate \<Rightarrow> event list" where
  "call_events s s' = take (length (io s') - length (io s)) (io s')"

definition words_read :: "kstate \<Rightarrow> kstate \<Rightarrow> 16 word list" where
  "words_read s s' = rev (in16_values (call_events s s'))"

definition in_region :: "addr \<Rightarrow> nat \<Rightarrow> addr \<Rightarrow> bool" where
  "in_region buf len a = (unat (a - buf) < len)"

text \<open>
  The transfer size the drive reported: the two bytes read right after the last 16-bit
  write (the packet), the first from the LBA-high port and the second from the LBA-mid
  port of the device, high byte first. A history with no such reads at that place (a call
  that ended in a protocol error sent no packet) reports nothing.
\<close>

fun is_out16 :: "event \<Rightarrow> bool" where
  "is_out16 (Out16 q v) = True"
| "is_out16 e = False"

definition since_packet :: "event list \<Rightarrow> event list" where
  "since_packet tr = rev (takeWhile (\<lambda>e. \<not> is_out16 e) tr)"

definition reported_size :: "ata_device \<Rightarrow> event list \<Rightarrow> nat option" where
  "reported_size dev tr =
     (case since_packet tr of
        In8 q2 hi # In8 q1 mid # rest \<Rightarrow>
          if q2 = base_port dev + ATA_LBAHI_PORT \<and> q1 = base_port dev + ATA_LBAMID_PORT
          then Some (unat hi * 256 + unat mid) else None
      | _ \<Rightarrow> None)"

text \<open>
  Two parts of \<open>atapi_read_block\<close>, named to state lemmas about the rest: the six words
  of the packet (\<open>read_cmd\<close> with the block address filled in), and the I/O history after
  lines 158 to 164 (drive select, settle delay, feature, byte-count limit, PACKET
  command).
\<close>

definition atapi_packet :: "32 word \<Rightarrow> 16 word list" where
  "atapi_packet lba =
     le_words16 [0xA8, 0,
                 ucast (drop_bit 0x18 lba AND 0xFF),
                 ucast (drop_bit 0x10 lba AND 0xFF),
                 ucast (drop_bit 0x08 lba AND 0xFF),
                 ucast (drop_bit 0x00 lba AND 0xFF),
                 0, 0, 0, 1, 0, 0]"

definition atapi_setup :: "hardware \<Rightarrow> ata_device \<Rightarrow> 32 word \<Rightarrow> event list \<Rightarrow> event list" where
  "atapi_setup hw dev maxlen tr0 =
     outb (base_port dev + ATA_COMMAND_PORT) 0xA0
      (outb (base_port dev + ATA_LBAHI_PORT) (ucast (drop_bit 8 maxlen))
        (outb (base_port dev + ATA_LBAMID_PORT) (ucast (maxlen AND 0xFF))
          (outb (base_port dev + ATA_FEAT_PORT) 0
            (ata_wait hw 4 (outb (base_port dev + ATA_DRIVE_PORT) (slave_bit dev) tr0)))))"

section \<open>Simulated drives and initial states\<close>

text \<open>
  Concrete drives for the executable instances below. \<open>hw_const v\<close> answers every byte
  read with \<open>v\<close>; \<open>hw_status sp v\<close> answers \<open>v\<close> on port \<open>sp\<close> and 0 elsewhere.
\<close>

definition hw_const :: "8 word \<Rightarrow> hardware" where
  "hw_const v = \<lparr>resp8 = (\<lambda>tr q. v), resp16 = (\<lambda>tr q. 0)\<rparr>"

definition hw_status :: "port \<Rightarrow> 8 word \<Rightarrow> hardware" where
  "hw_status sp v = \<lparr>resp8 = (\<lambda>tr q. if q = sp then v else 0), resp16 = (\<lambda>tr q. 0)\<rparr>"

text \<open>
  \<open>hw_cdrom n\<close>: a packet drive on the primary channel that accepts the PACKET command,
  reports a transfer of \<open>n\<close> bytes, delivers the word \<open>0xBEEF\<close> and drops its
  data-request bit once the packet has arrived and \<open>n div 2\<close> words were fetched.
\<close>

fun has_out16 :: "event list \<Rightarrow> bool" where
  "has_out16 [] = False"
| "has_out16 (Out16 q v # tr) = True"
| "has_out16 (e # tr) = has_out16 tr"

definition hw_cdrom :: "nat \<Rightarrow> hardware" where
  "hw_cdrom n =
     \<lparr>resp8 = (\<lambda>tr q. if q = 0x1F7 then (if has_out16 tr \<and> n div 2 \<le> in16_count tr then 0x50 else 0x58)
                      else if q = 0x1F4 then of_nat (n mod 256)
                      else if q = 0x1F5 then of_nat (n div 256)
                      else 0),
      resp16 = (\<lambda>tr q. 0xBEEF)\<rparr>"

text \<open>
  \<open>hw_odd_signature\<close>: a drive on the primary channel whose signature bytes after reset
  are \<open>(0x12, 0x34)\<close>, none of the four known pairs, and which then answers IDENTIFY
  like a plain ATA drive (LBA-mid/high read 0 once a command was written, status
  ready with data request, first data word \<open>0x0040\<close>).
\<close>

fun has_out8 :: "port \<Rightarrow> event list \<Rightarrow> bool" where
  "has_out8 q [] = False"
| "has_out8 q (Out8 q' v # tr) = (q' = q \<or> has_out8 q tr)"
| "has_out8 q (e # tr) = has_out8 q tr"

definition hw_odd_signature :: hardware where
  "hw_odd_signature =
     \<lparr>resp8 = (\<lambda>tr q. if q = 0x1F7 then 0x58
                      else if q = 0x1F4 then (if has_out8 0x1F7 tr then 0 else 0x12)
                      else if q = 0x1F5 then (if has_out8 0x1F7 tr then 0 else 0x34)
                      else 0),
      resp16 = (\<lambda>tr q. 0x0040)\<rparr>"

text \<open>
  Kernel states and a registered device for the instances. \<open>s_boot\<close> is a state before
  \<open>ata_install\<close>: the memory is zeroed, so a descriptor read anywhere has \<open>type\<close>
  \<open>ATA_TYPE_UNKNOWN\<close>. In \<open>s_cd\<close> the memory holds at \<open>0x2000\<close> the descriptor \<open>d_cd\<close> of
  a packet drive at \<open>0x1F0\<close> (\<open>type\<close> 1 at offset 0, the two ports little-endian at
  offsets 4 and 6) and zero elsewhere; \<open>dev_cd\<close> is the generic device whose handle is that
  address. \<open>dead_ex\<close> is a content of the stack slot of \<open>ata_install\<close>'s local after the
  function has returned.
\<close>

definition d_cd :: ata_device where
  "d_cd = \<lparr>type = ATA_TYPE_PATAPI, base_port = 0x1F0, control_port = 0x3F6, slave_bit = 0,
           lba48_support = 0, lba48_total = 0, lba28_total = 0, pos = 0\<rparr>"

definition s_boot :: kstate where
  "s_boot = \<lparr>io = [], mem = (\<lambda>a. 0), devices = []\<rparr>"

definition s_cd :: kstate where
  "s_cd = \<lparr>io = [],
           mem = (\<lambda>a. 0)(0x2000 := 0x01, 0x2004 := 0xF0, 0x2005 := 0x01, 0x2006 := 0xF6, 0x2007 := 0x03),
           devices = []\<rparr>"

definition dev_cd :: device where
  "dev_cd = \<lparr>dev_type = DEVICE_RANDOM, name = ''ATA-0'', p = 0x2000,
             read_op = Ata_read, write_op = Ata_write, seek_op = Ata_seek\<rparr>"

definition lim_ex :: device_limits where
  "lim_ex = \<lparr>DEVICE_NAME_MAX = 32, DEVICE_MAX = 16\<rparr>"

definition dead_ex :: memory where
  "dead_ex = (\<lambda>a. 0)(0x2004 := 0x05, 0x2005 := 0x80)"

section \<open>Lemmas\<close>

lemma bytes16: "ucast (ucast v :: 8 word) OR push_bit 8 (ucast (ucast (drop_bit 8 v) :: 8 word)) = (v :: 16 word)"
  by (rule bit_eqI) (auto simp: bit_simps)

lemma bytes32:
  "ucast (ucast v :: 8 word) OR push_bit 8 (ucast (ucast (drop_bit 8 v) :: 8 word))
     OR push_bit 16 (ucast (ucast (drop_bit 16 v) :: 8 word))
     OR push_bit 24 (ucast (ucast (drop_bit 24 v) :: 8 word)) = (v :: 32 word)"
proof (rule bit_eqI)
  fix n :: nat
  consider "n < 8" | "8 \<le> n" "n < 16" | "16 \<le> n" "n < 24" | "24 \<le> n"
    by linarith
  then show "bit (ucast (ucast v :: 8 word) OR push_bit 8 (ucast (ucast (drop_bit 8 v) :: 8 word))
     OR push_bit 16 (ucast (ucast (drop_bit 16 v) :: 8 word))
     OR push_bit 24 (ucast (ucast (drop_bit 24 v) :: 8 word)) :: 32 word) n = bit v n"
    by cases (auto simp: bit_simps dest: bit_imp_le_length)
qed

lemma load16_store16 [simp]: "load16 (store16 a v m) a = v"
  by (simp add: load16_def store16_def bytes16)

lemma load32_store32 [simp]: "load32 (store32 a v m) a = v"
  by (simp add: load32_def store32_def bytes32)

lemmas layout_defs = ata_mem_def load_ata_device_def load16_def load32_def load64_def
  store16_def store32_def

lemma ata_mem_io [simp]: "ata_mem (s\<lparr>io := t\<rparr>) a = ata_mem s a"
  by (simp add: ata_mem_def)

lemma ata_mem_devices [simp]: "ata_mem (s\<lparr>devices := t\<rparr>) a = ata_mem s a"
  by (simp add: ata_mem_def)

lemma ata_set_simps [simp]:
  "ata_mem (ata_set_type a ty s) a = (ata_mem s a)\<lparr>type := ty\<rparr>"
  "ata_mem (ata_set_base_port a v16 s) a = (ata_mem s a)\<lparr>base_port := v16\<rparr>"
  "ata_mem (ata_set_control_port a v16 s) a = (ata_mem s a)\<lparr>control_port := v16\<rparr>"
  "ata_mem (ata_set_slave_bit a v8 s) a = (ata_mem s a)\<lparr>slave_bit := v8\<rparr>"
  "ata_mem (ata_set_pos a v32 s) a = (ata_mem s a)\<lparr>pos := v32\<rparr>"
  by (simp_all add: ata_set_type_def ata_set_base_port_def ata_set_control_port_def
        ata_set_slave_bit_def ata_set_pos_def layout_defs add.assoc bytes16 bytes32)

lemma ata_set_io [simp]:
  "io (ata_set_type a ty s) = io s"
  "io (ata_set_base_port a v16 s) = io s"
  "io (ata_set_control_port a v16 s) = io s"
  "io (ata_set_slave_bit a v8 s) = io s"
  "io (ata_set_pos a v32 s) = io s"
  by (simp_all add: ata_set_type_def ata_set_base_port_def ata_set_control_port_def
        ata_set_slave_bit_def ata_set_pos_def)

lemma ata_set_devices [simp]:
  "devices (ata_set_type a ty s) = devices s"
  "devices (ata_set_base_port a v16 s) = devices s"
  "devices (ata_set_control_port a v16 s) = devices s"
  "devices (ata_set_slave_bit a v8 s) = devices s"
  "devices (ata_set_pos a v32 s) = devices s"
  by (simp_all add: ata_set_type_def ata_set_base_port_def ata_set_control_port_def
        ata_set_slave_bit_def ata_set_pos_def)

lemma in_region_offset: "unat (k :: 32 word) < len \<Longrightarrow> in_region a len (a + k)"
  by (simp add: in_region_def)


lemma load_ata_device_footprint:
  assumes "\<And>x. in_region a 28 x \<Longrightarrow> m' x = m x"
  shows "load_ata_device m' a = load_ata_device m a"
proof -
  have eq: "m' (a + k) = m (a + k)" if "unat k < 28" for k
    using assms in_region_offset[OF that, of a] by blast
  have eq0: "m' a = m a" using eq[of 0] by simp
  show ?thesis
    unfolding load_ata_device_def load16_def load32_def load64_def
    by (simp add: add.assoc eq eq0)
qed

lemmas port_defs =
  ATA_DATA_PORT_def ATA_FEAT_PORT_def ATA_SECTOR_COUNT_PORT_def ATA_LBALO_PORT_def
  ATA_LBAMID_PORT_def ATA_LBAHI_PORT_def ATA_DRIVE_PORT_def ATA_COMMAND_PORT_def

lemma map_snoc_append: "map f vs @ f v # tr = map f (vs @ [v]) @ tr"
  by simp

lemma atapi_wait_bsy_io:
  assumes "atapi_read_block_wait_bsy hw d tr = Some y"
  shows "\<exists>vs. snd y = map (In8 (base_port d + ATA_COMMAND_PORT)) vs @ tr"
proof (rule atapi_read_block_wait_bsy.raw_induct[where P = "\<lambda>hw d tr y. \<exists>vs. snd y = map (In8 (base_port d + ATA_COMMAND_PORT)) vs @ tr", OF _ assms], goal_cases)
  case (1 f hw d tr y)
  show ?case
  proof (cases "resp8 hw tr (base_port d + ATA_COMMAND_PORT) AND 0x80 \<noteq> 0")
    case True
    with 1(2) have "f hw d (In8 (base_port d + ATA_COMMAND_PORT) (resp8 hw tr (base_port d + ATA_COMMAND_PORT)) # tr) = Some y"
      by (simp add: inb_def Let_def)
    from 1(1)[OF this] show ?thesis
      by (metis map_snoc_append)
  next
    case False
    with 1(2) have "snd y = map (In8 (base_port d + ATA_COMMAND_PORT)) [resp8 hw tr (base_port d + ATA_COMMAND_PORT)] @ tr"
      by (auto simp: inb_def Let_def)
    then show ?thesis by blast
  qed
qed

lemma atapi_wait_drq_io:
  assumes "atapi_read_block_wait_drq hw d tr = Some y"
  shows "\<exists>vs. snd y = map (In8 (base_port d + ATA_COMMAND_PORT)) vs @ tr"
proof (rule atapi_read_block_wait_drq.raw_induct[where P = "\<lambda>hw d tr y. \<exists>vs. snd y = map (In8 (base_port d + ATA_COMMAND_PORT)) vs @ tr", OF _ assms], goal_cases)
  case (1 f hw d tr y)
  let ?v = "resp8 hw tr (base_port d + ATA_COMMAND_PORT)"
  show ?case
  proof (cases "\<not> (?v AND 0x8 \<noteq> 0) \<and> \<not> (?v AND 0x1 \<noteq> 0)")
    case True
    with 1(2) have "f hw d (In8 (base_port d + ATA_COMMAND_PORT) ?v # tr) = Some y"
      by (simp add: inb_def Let_def)
    from 1(1)[OF this] show ?thesis
      by (metis map_snoc_append)
  next
    case False
    with 1(2) have "snd y = map (In8 (base_port d + ATA_COMMAND_PORT)) [?v] @ tr"
      by (auto simp: inb_def Let_def)
    then show ?thesis by blast
  qed
qed

lemma atapi_wait_done_io:
  assumes "atapi_read_block_wait_done hw d tr = Some y"
  shows "\<exists>vs. snd y = map (In8 (base_port d + ATA_COMMAND_PORT)) vs @ tr"
proof (rule atapi_read_block_wait_done.raw_induct[where P = "\<lambda>hw d tr y. \<exists>vs. snd y = map (In8 (base_port d + ATA_COMMAND_PORT)) vs @ tr", OF _ assms], goal_cases)
  case (1 f hw d tr y)
  let ?v = "resp8 hw tr (base_port d + ATA_COMMAND_PORT)"
  show ?case
  proof (cases "?v AND 0x88 \<noteq> 0")
    case True
    with 1(2) have "f hw d (In8 (base_port d + ATA_COMMAND_PORT) ?v # tr) = Some y"
      by (simp add: inb_def Let_def)
    from 1(1)[OF this] show ?thesis
      by (metis map_snoc_append)
  next
    case False
    with 1(2) have "snd y = map (In8 (base_port d + ATA_COMMAND_PORT)) [?v] @ tr"
      by (auto simp: inb_def Let_def)
    then show ?thesis by blast
  qed
qed

lemma in16_count_status [simp]: "in16_count (map (In8 q) vs @ tr) = in16_count tr"
  by (induction vs) simp_all

lemma in16_count_words [simp]: "in16_count (map (In16 q) ws @ tr) = length ws + in16_count tr"
  by (induction ws) simp_all

lemma in16_count_outsw [simp]: "in16_count (outsw q ws n tr) = in16_count tr"
  by (induction n arbitrary: ws tr) (simp_all split: list.splits)

lemma in16_count_ata_wait [simp]: "in16_count (ata_wait hw n tr) = in16_count tr"
  by (induction n arbitrary: tr) (simp_all add: inb_def Let_def)

lemma in16_values_append [simp]: "in16_values (xs @ ys) = in16_values xs @ in16_values ys"
  by (induction xs rule: in16_values.induct) simp_all

lemma in16_values_status [simp]: "in16_values (map (In8 q) vs) = []"
  by (induction vs) simp_all

lemma in16_values_words [simp]: "in16_values (map (In16 q) ws) = ws"
  by (induction ws) simp_all

lemma ata_wait_io: "\<exists>vs. ata_wait hw n tr = map (In8 0x3F6) vs @ tr"
proof (induction n arbitrary: tr)
  case 0
  show ?case by simp
next
  case (Suc n)
  obtain vs where "ata_wait hw n (In8 0x3F6 (resp8 hw tr 0x3F6) # tr)
      = map (In8 0x3F6) vs @ In8 0x3F6 (resp8 hw tr 0x3F6) # tr"
    using Suc.IH by blast
  then have "ata_wait hw (Suc n) tr = map (In8 0x3F6) (vs @ [resp8 hw tr 0x3F6]) @ tr"
    by (simp add: inb_def Let_def)
  then show ?case by blast
qed

lemma in_region_step:
  assumes "\<not> in_region buf (2 * Suc n) a"
  shows "a \<noteq> buf" "a \<noteq> buf + 1" "\<not> in_region (buf + 2) (2 * n) a"
proof -
  from assms have ge: "2 * n + 2 \<le> unat (a - buf)" by (simp add: in_region_def)
  show "a \<noteq> buf" using ge by auto
  show "a \<noteq> buf + 1" using ge by auto
  have "(2 :: 32 word) \<le> a - buf" using ge by (simp add: word_le_nat_alt)
  then have "unat (a - buf - 2) = unat (a - buf) - 2" by (simp add: unat_sub)
  then have "unat (a - (buf + 2)) = unat (a - buf) - 2"
    by (simp only: diff_diff_eq)
  then show "\<not> in_region (buf + 2) (2 * n) a"
    using ge by (simp only: in_region_def)
qed

lemma insw_frame:
  "\<not> in_region buf (2 * n) a \<Longrightarrow> snd (insw hw q buf n (tr, m)) a = m a"
proof (induction n arbitrary: buf tr m)
  case 0
  show ?case by simp
next
  case (Suc n)
  note st = in_region_step[OF Suc.prems]
  show ?case
    using Suc.IH[OF st(3)] st(1,2) by (simp add: inw_def Let_def)
qed

lemma unat_lt_256: "unat (b :: 8 word) < 256"
  using unsigned_less[of b, where 'a=nat] by simp

lemma unat_ucast_8_32: "unat (ucast (b :: 8 word) :: 32 word) = unat b"
  using unat_lt_256[of b] by (simp add: unsigned_ucast_eq take_bit_nat_eq_self)

lemma size_add: 
  fixes hi mid :: "8 word"
  shows "(push_bit 8 (ucast hi) OR ucast mid :: 32 word) = push_bit 8 (ucast hi) + ucast mid"
  by (rule disjunctive_add[symmetric]) (auto simp: bit_simps dest: bit_imp_le_length)

lemma unat_size:
  fixes hi mid :: "8 word"
  shows "unat (push_bit 8 (ucast hi) OR ucast mid :: 32 word) = unat hi * 256 + unat mid"
proof -
  have h: "unat hi < 256" and m: "unat mid < 256"
    by (rule unat_lt_256)+
  have "unat (push_bit 8 (ucast hi) :: 32 word) = unat hi * 256"
    using h by (simp add: push_bit_eq_mult unat_word_ariths unat_ucast_8_32)
  then show ?thesis
    using h m by (simp add: size_add unat_word_ariths unat_ucast_8_32)
qed

lemma sint_small:
  fixes s :: "32 word"
  assumes "unat s < 65536"
  shows "sint s = int (unat s)"
proof -
  have "int (unat s) < 65536" using assms by linarith
  then have "uint s < 65536" by simp
  moreover have "- (2 ^ 31) \<le> uint s"
    by (rule order_trans[OF _ uint_ge_0]) simp
  ultimately have "signed_take_bit 31 (uint s) = uint s"
    by (intro signed_take_bit_int_eq_self) simp_all
  then show ?thesis by (simp add: sint_uint)
qed

lemma sdiv2_nonneg: "(0::int) \<le> a \<Longrightarrow> a sdiv 2 = a div 2"
  by (simp add: signed_divide_int_def sgn_if)

lemma small_not_minus1:
  fixes s :: "32 word"
  assumes "unat s < 65536"
  shows "s \<noteq> - 1"
  using assms by (auto simp: unsigned_minus_1_eq_mask mask_eq_exp_minus_1)

lemma size_div2:
  fixes s :: "32 word"
  assumes "unat s < 65536"
  shows "nat (sint s sdiv 2) = unat s div 2"
proof -
  have "nat (sint s sdiv 2) = nat (int (unat s) div 2)"
    using assms by (simp only: sint_small sdiv2_nonneg of_nat_0_le_iff)
  also have "\<dots> = unat s div 2"
    by (simp only: nat_div_distrib of_nat_0_le_iff nat_int) simp
  finally show ?thesis .
qed

lemma ata_wait_bsy_clear_stuck:
  assumes "\<And>tr. ATA_ISBSY (resp8 hw tr (base_port d + ATA_COMMAND_PORT))"
  shows "ata_wait_bsy_clear hw d tr = None"
proof (cases "ata_wait_bsy_clear hw d tr")
  case (Some y)
  have "(\<forall>tr. ATA_ISBSY (resp8 hw tr (base_port d + ATA_COMMAND_PORT))) \<longrightarrow> False"
    by (rule ata_wait_bsy_clear.raw_induct[where P = "\<lambda>hw d tr y. (\<forall>tr. ATA_ISBSY (resp8 hw tr (base_port d + ATA_COMMAND_PORT))) \<longrightarrow> False", OF _ Some])
       (auto simp: ata_read_status_def inb_def Let_def split: if_splits)
  with assms show ?thesis by blast
qed simp

lemma ata_wait_drq_set_stuck:
  assumes "\<And>tr. \<not> ATA_ISDRQ (resp8 hw tr (base_port d + ATA_COMMAND_PORT)) \<and> \<not> ATA_ISERR (resp8 hw tr (base_port d + ATA_COMMAND_PORT))"
  shows "ata_wait_drq_set hw d tr = None"
proof (cases "ata_wait_drq_set hw d tr")
  case (Some y)
  let ?I = "\<lambda>hw d. \<forall>tr. \<not> ATA_ISDRQ (resp8 hw tr (base_port d + ATA_COMMAND_PORT)) \<and> \<not> ATA_ISERR (resp8 hw tr (base_port d + ATA_COMMAND_PORT))"
  have "?I hw d \<longrightarrow> False"
    by (rule ata_wait_drq_set.raw_induct[where P = "\<lambda>hw d tr y. ?I hw d \<longrightarrow> False", OF _ Some])
       (auto simp: ata_read_status_def inb_def Let_def split: if_splits)
  with assms show ?thesis by blast
qed simp

lemma atapi_wait_bsy_stuck:
  assumes "\<And>tr. resp8 hw tr (base_port d + ATA_COMMAND_PORT) AND 0x80 \<noteq> 0"
  shows "atapi_read_block_wait_bsy hw d tr = None"
proof (cases "atapi_read_block_wait_bsy hw d tr")
  case (Some y)
  let ?I = "\<lambda>hw d. \<forall>tr. resp8 hw tr (base_port d + ATA_COMMAND_PORT) AND 0x80 \<noteq> 0"
  have "?I hw d \<longrightarrow> False"
    by (rule atapi_read_block_wait_bsy.raw_induct[where P = "\<lambda>hw d tr y. ?I hw d \<longrightarrow> False", OF _ Some])
       (auto simp: inb_def Let_def split: if_splits)
  with assms show ?thesis by blast
qed simp

lemma atapi_wait_drq_stuck:
  assumes "\<And>tr. resp8 hw tr (base_port d + ATA_COMMAND_PORT) AND 0x8 = 0 \<and> resp8 hw tr (base_port d + ATA_COMMAND_PORT) AND 0x1 = 0"
  shows "atapi_read_block_wait_drq hw d tr = None"
proof (cases "atapi_read_block_wait_drq hw d tr")
  case (Some y)
  let ?I = "\<lambda>hw d. \<forall>tr. resp8 hw tr (base_port d + ATA_COMMAND_PORT) AND 0x8 = 0 \<and> resp8 hw tr (base_port d + ATA_COMMAND_PORT) AND 0x1 = 0"
  have "?I hw d \<longrightarrow> False"
    by (rule atapi_read_block_wait_drq.raw_induct[where P = "\<lambda>hw d tr y. ?I hw d \<longrightarrow> False", OF _ Some])
       (auto simp: inb_def Let_def split: if_splits)
  with assms show ?thesis by blast
qed simp

lemma atapi_wait_done_stuck:
  assumes "\<And>tr. resp8 hw tr (base_port d + ATA_COMMAND_PORT) AND 0x88 \<noteq> 0"
  shows "atapi_read_block_wait_done hw d tr = None"
proof (cases "atapi_read_block_wait_done hw d tr")
  case (Some y)
  let ?I = "\<lambda>hw d. \<forall>tr. resp8 hw tr (base_port d + ATA_COMMAND_PORT) AND 0x88 \<noteq> 0"
  have "?I hw d \<longrightarrow> False"
    by (rule atapi_read_block_wait_done.raw_induct[where P = "\<lambda>hw d tr y. ?I hw d \<longrightarrow> False", OF _ Some])
       (auto simp: inb_def Let_def split: if_splits)
  with assms show ?thesis by blast
qed simp

lemma polls_stuck_concrete:
  "ata_wait_bsy_clear (hw_const 0x80) d tr = None"
  "ata_wait_drq_set (hw_const 0) d tr = None"
  "atapi_read_block_wait_bsy (hw_const 0x80) d tr = None"
  "atapi_read_block_wait_drq (hw_const 0) d tr = None"
  "atapi_read_block_wait_done (hw_const 0x08) d tr = None"
  by (rule ata_wait_bsy_clear_stuck ata_wait_drq_set_stuck atapi_wait_bsy_stuck
        atapi_wait_drq_stuck atapi_wait_done_stuck;
      simp add: hw_const_def ATA_ISBSY_def ATA_ISDRQ_def ATA_ISERR_def)+

lemma insw_run:
  assumes "2 * n < 2 ^ 32"
  shows "\<exists>ws. length ws = n
     \<and> fst (insw hw q buf n (tr, m)) = map (In16 q) (rev ws) @ tr
     \<and> (\<forall>i<n. snd (insw hw q buf n (tr, m)) (buf + of_nat (2 * i)) = ucast (ws ! i)
             \<and> snd (insw hw q buf n (tr, m)) (buf + of_nat (2 * i + 1)) = ucast (drop_bit 8 (ws ! i)))"
  using assms
proof (induction n arbitrary: buf tr m)
  case 0
  show ?case by simp
next
  case (Suc n)
  let ?w = "resp16 hw tr q"
  let ?m1 = "m(buf := ucast ?w, buf + 1 := ucast (drop_bit 8 ?w))"
  let ?tr1 = "In16 q ?w # tr"
  let ?R = "insw hw q (buf + 2) n (?tr1, ?m1)"
  have step: "insw hw q buf (Suc n) (tr, m) = ?R"
    by (simp add: inw_def Let_def)
  have n: "2 * n < 2 ^ 32" and n2: "2 * n + 2 < (2 :: nat) ^ 32"
    using Suc.prems by simp_all
  obtain ws where ws: "length ws = n" "fst ?R = map (In16 q) (rev ws) @ ?tr1"
    and cont: "\<forall>i<n. snd ?R (buf + 2 + of_nat (2 * i)) = ucast (ws ! i)
             \<and> snd ?R (buf + 2 + of_nat (2 * i + 1)) = ucast (drop_bit 8 (ws ! i))"
    using Suc.IH[OF n, of "buf + 2" ?tr1 ?m1] by blast
  have u2: "unat (buf - (buf + 2)) = 2 ^ 32 - 2"
  proof -
    have "buf - (buf + 2) = - 2" by simp
    then show ?thesis by simp
  qed
  have u1: "unat (buf + 1 - (buf + 2)) = 2 ^ 32 - 1"
  proof -
    have "buf + 1 - (buf + 2) = - 1" by simp
    then show ?thesis by (simp add: unsigned_minus_1_eq_mask mask_eq_exp_minus_1)
  qed
  have out0: "\<not> in_region (buf + 2) (2 * n) buf"
    unfolding in_region_def u2 using n2 by simp
  have out1: "\<not> in_region (buf + 2) (2 * n) (buf + 1)"
    unfolding in_region_def u1 using n2 by simp
  have b0: "snd ?R buf = ucast ?w"
    using insw_frame[OF out0, of hw q ?tr1 ?m1] by simp
  have b1: "snd ?R (buf + 1) = ucast (drop_bit 8 ?w)"
    using insw_frame[OF out1, of hw q ?tr1 ?m1] by simp
  let ?ws = "?w # ws"
  have "length ?ws = Suc n" using ws(1) by simp
  moreover have "fst (insw hw q buf (Suc n) (tr, m)) = map (In16 q) (rev ?ws) @ tr"
    using ws(2) unfolding step by simp
  moreover have "snd (insw hw q buf (Suc n) (tr, m)) (buf + of_nat (2 * i)) = ucast (?ws ! i)
       \<and> snd (insw hw q buf (Suc n) (tr, m)) (buf + of_nat (2 * i + 1)) = ucast (drop_bit 8 (?ws ! i))"
    if "i < Suc n" for i
  proof (cases i)
    case 0
    then show ?thesis using b0 b1 unfolding step by simp
  next
    case (Suc j)
    then have j: "j < n" using that by simp
    have a0: "buf + of_nat (2 * i) = buf + 2 + of_nat (2 * j)"
      and a1: "buf + of_nat (2 * i + 1) = buf + 2 + of_nat (2 * j + 1)"
      using Suc by simp_all
    show ?thesis
      using cont j unfolding step a0 a1 by (simp add: Suc)
  qed
  ultimately show ?case by blast
qed

lemma insw_numeral:
  "insw hw q buf (numeral k) tm =
     (let (w, tr') = inw hw q (fst tm);
          m' = (snd tm)(buf := ucast w, buf + 1 := ucast (drop_bit 8 w))
      in insw hw q (buf + 2) (pred_numeral k) (tr', m'))"
  by (simp add: numeral_eq_Suc)

lemma outsw_numeral:
  "outsw q ws (numeral k) tr =
     (case ws of [] \<Rightarrow> tr | w # ws' \<Rightarrow> outsw q ws' (pred_numeral k) (Out16 q w # tr))"
  by (simp add: numeral_eq_Suc)

lemma ata_wait_numeral:
  "ata_wait hw (numeral k) tr = ata_wait hw (pred_numeral k) (snd (inb hw 0x3F6 tr))"
  by (simp add: numeral_eq_Suc)

lemma outsw_packet:
  "\<exists>w1 w2 w3 w4 w5 w6. outsw q (atapi_packet lba) 6 tr =
     Out16 q w6 # Out16 q w5 # Out16 q w4 # Out16 q w3 # Out16 q w2 # Out16 q w1 # tr"
  by (simp add: atapi_packet_def outsw_numeral)

lemma call_events_append: "io s' = new @ io s \<Longrightarrow> call_events s s' = new"
  by (simp add: call_events_def)

lemma since_packet_after:
  assumes "\<forall>e\<in>set post. \<not> is_out16 e"
  shows "since_packet (post @ Out16 q w # tr) = rev post"
  using assms by (simp add: since_packet_def takeWhile_append2)

lemma since_packet_none:
  assumes "\<forall>e\<in>set evs. \<not> is_out16 e"
  shows "since_packet evs = rev evs"
  using assms by (simp add: since_packet_def)

lemma in16_count_atapi_setup [simp]: "in16_count (atapi_setup hw d maxlen tr) = in16_count tr"
  by (simp add: atapi_setup_def outb_def)

lemma atapi_setup_io:
  "\<exists>pre. atapi_setup hw d maxlen tr = pre @ Out8 (base_port d + ATA_DRIVE_PORT) (slave_bit d) # tr
     \<and> (\<forall>e\<in>set pre. \<not> is_out16 e) \<and> in16_values pre = []"
proof -
  obtain vs where vs: "ata_wait hw 4 (Out8 (base_port d + ATA_DRIVE_PORT) (slave_bit d) # tr)
      = map (In8 0x3F6) vs @ Out8 (base_port d + ATA_DRIVE_PORT) (slave_bit d) # tr"
    using ata_wait_io by blast
  let ?pre = "[Out8 (base_port d + ATA_COMMAND_PORT) 0xA0,
               Out8 (base_port d + ATA_LBAHI_PORT) (ucast (drop_bit 8 maxlen)),
               Out8 (base_port d + ATA_LBAMID_PORT) (ucast (maxlen AND 0xFF)),
               Out8 (base_port d + ATA_FEAT_PORT) 0] @ map (In8 0x3F6) vs"
  have "atapi_setup hw d maxlen tr = ?pre @ Out8 (base_port d + ATA_DRIVE_PORT) (slave_bit d) # tr"
    using vs by (simp add: atapi_setup_def outb_def)
  moreover have "\<forall>e\<in>set ?pre. \<not> is_out16 e" by auto
  moreover have "in16_values ?pre = []" by simp
  ultimately show ?thesis by blast
qed

lemma ata_mem_mem: "ata_mem (s\<lparr>mem := m\<rparr>) a = load_ata_device m a"
  by (simp add: ata_mem_def)

lemma atapi_read_block_elim:
  assumes "atapi_read_block hw dev lba buffer maxlen s = Some (r, s')"
  obtains (err) st1 tr1 st2 tr2 where
      "atapi_read_block_wait_bsy hw (ata_mem s dev) (atapi_setup hw (ata_mem s dev) maxlen (io s)) = Some (st1, tr1)"
      "atapi_read_block_wait_drq hw (ata_mem s dev) tr1 = Some (st2, tr2)"
      "st2 AND 1 \<noteq> 0" "r = - 1" "s' = s\<lparr>io := tr2\<rparr>"
  | (ok) st1 tr1 st2 tr2 hi mid n m st3 tr3 where
      "atapi_read_block_wait_bsy hw (ata_mem s dev) (atapi_setup hw (ata_mem s dev) maxlen (io s)) = Some (st1, tr1)"
      "atapi_read_block_wait_drq hw (ata_mem s dev) tr1 = Some (st2, tr2)"
      "st2 AND 1 = 0"
      "hi = resp8 hw (outsw (base_port (ata_mem s dev)) (atapi_packet lba) 6 tr2)
              (base_port (ata_mem s dev) + ATA_LBAHI_PORT)"
      "mid = resp8 hw (In8 (base_port (ata_mem s dev) + ATA_LBAHI_PORT) hi
                        # outsw (base_port (ata_mem s dev)) (atapi_packet lba) 6 tr2)
               (base_port (ata_mem s dev) + ATA_LBAMID_PORT)"
      "r = push_bit 8 (ucast hi) OR ucast mid"
      "n = nat (sint r sdiv 2)"
      "m = snd (insw hw (base_port (ata_mem s dev)) buffer n
            (In8 (base_port (ata_mem s dev) + ATA_LBAMID_PORT) mid
               # In8 (base_port (ata_mem s dev) + ATA_LBAHI_PORT) hi
               # outsw (base_port (ata_mem s dev)) (atapi_packet lba) 6 tr2, mem s))"
      "atapi_read_block_wait_done hw (load_ata_device m dev)
         (fst (insw hw (base_port (ata_mem s dev)) buffer n
            (In8 (base_port (ata_mem s dev) + ATA_LBAMID_PORT) mid
               # In8 (base_port (ata_mem s dev) + ATA_LBAHI_PORT) hi
               # outsw (base_port (ata_mem s dev)) (atapi_packet lba) 6 tr2, mem s)))
         = Some (st3, tr3)"
      "s' = s\<lparr>mem := m, io := tr3\<rparr>"
  using assms unfolding atapi_read_block_def atapi_setup_def atapi_packet_def
  by (auto simp: Let_def inb_def ata_mem_mem split: Option.bind_splits if_splits prod.splits)

lemma atapi_read_block_error:
  assumes "atapi_read_block hw dev lba buffer maxlen s = Some (r, s')" and "r = - 1"
  shows "mem s' = mem s \<and> devices s' = devices s
       \<and> reported_size (ata_mem s dev) (call_events s s') = None"
  using assms(1)
proof (cases rule: atapi_read_block_elim)
  case (err st1 tr1 st2 tr2)
  let ?d = "ata_mem s dev"
  obtain pre where pre: "atapi_setup hw ?d maxlen (io s)
        = pre @ Out8 (base_port ?d + ATA_DRIVE_PORT) (slave_bit ?d) # io s"
    "\<forall>e\<in>set pre. \<not> is_out16 e"
    using atapi_setup_io by blast
  obtain vs1 where tr1: "tr1 = map (In8 (base_port ?d + ATA_COMMAND_PORT)) vs1 @ atapi_setup hw ?d maxlen (io s)"
    using atapi_wait_bsy_io[OF err(1)] by auto
  obtain vs2 where tr2: "tr2 = map (In8 (base_port ?d + ATA_COMMAND_PORT)) vs2 @ tr1"
    using atapi_wait_drq_io[OF err(2)] by auto
  let ?new = "map (In8 (base_port ?d + ATA_COMMAND_PORT)) vs2 @ map (In8 (base_port ?d + ATA_COMMAND_PORT)) vs1
      @ pre @ [Out8 (base_port ?d + ATA_DRIVE_PORT) (slave_bit ?d)]"
  have "io s' = ?new @ io s" by (simp add: err(5) tr2 tr1 pre(1))
  then have ce: "call_events s s' = ?new" by (rule call_events_append)
  have "\<forall>e\<in>set ?new. \<not> is_out16 e" using pre(2) by auto
  then have "since_packet ?new = rev ?new" by (rule since_packet_none)
  then have "reported_size ?d (call_events s s') = None"
    by (simp add: reported_size_def ce)
  then show ?thesis by (simp add: err(5))
next
  case (ok st1 tr1 st2 tr2 hi mid n m st3 tr3)
  have "unat r < 65536"
    using unat_lt_256[of hi] unat_lt_256[of mid] by (simp add: ok(6) unat_size)
  with assms(2) show ?thesis using small_not_minus1 by blast
qed

lemma atapi_read_block_success:
  assumes "atapi_read_block hw dev lba buffer maxlen s = Some (r, s')" and "r \<noteq> - 1"
  shows "unat r < 65536 \<and> devices s' = devices s
       \<and> reported_size (ata_mem s dev) (io s') = Some (unat r)
       \<and> reported_size (ata_mem s dev) (call_events s s') = Some (unat r)
       \<and> in16_count (io s') = in16_count (io s) + unat r div 2
       \<and> length (words_read s s') = unat r div 2
       \<and> (\<forall>i<unat r div 2.
              mem s' (buffer + of_nat (2 * i)) = ucast (words_read s s' ! i)
            \<and> mem s' (buffer + of_nat (2 * i + 1)) = ucast (drop_bit 8 (words_read s s' ! i)))
       \<and> (\<forall>a. \<not> in_region buffer (2 * (unat r div 2)) a \<longrightarrow> mem s' a = mem s a)"
  using assms(1)
proof (cases rule: atapi_read_block_elim)
  case err
  then show ?thesis using assms(2) by simp
next
  case (ok st1 tr1 st2 tr2 hi mid n m st3 tr3)
  let ?d = "ata_mem s dev"
  let ?B = "base_port ?d"
  let ?C = "base_port (load_ata_device m dev) + ATA_COMMAND_PORT"
  let ?pk = "outsw ?B (atapi_packet lba) 6 tr2"
  let ?tr = "In8 (?B + ATA_LBAMID_PORT) mid # In8 (?B + ATA_LBAHI_PORT) hi # ?pk"
  have small: "unat r < 65536"
    using unat_lt_256[of hi] unat_lt_256[of mid] by (simp add: ok(6) unat_size)
  have n: "n = unat r div 2"
    using small by (simp add: ok(7) size_div2)
  have n32: "2 * n < 2 ^ 32" using small n by simp
  obtain pre where pre: "atapi_setup hw ?d maxlen (io s)
        = pre @ Out8 (?B + ATA_DRIVE_PORT) (slave_bit ?d) # io s"
    and pre16: "in16_values pre = []"
    using atapi_setup_io by blast
  obtain vs1 where tr1: "tr1 = map (In8 (?B + ATA_COMMAND_PORT)) vs1 @ atapi_setup hw ?d maxlen (io s)"
    using atapi_wait_bsy_io[OF ok(1)] by auto
  obtain vs2 where tr2: "tr2 = map (In8 (?B + ATA_COMMAND_PORT)) vs2 @ tr1"
    using atapi_wait_drq_io[OF ok(2)] by auto
  obtain w1 w2 w3 w4 w5 w6 where pk: "?pk =
     Out16 ?B w6 # Out16 ?B w5 # Out16 ?B w4 # Out16 ?B w3 # Out16 ?B w2 # Out16 ?B w1 # tr2"
    using outsw_packet by blast
  obtain ws where ws: "length ws = n"
      "fst (insw hw ?B buffer n (?tr, mem s)) = map (In16 ?B) (rev ws) @ ?tr"
      "\<forall>i<n. m (buffer + of_nat (2 * i)) = ucast (ws ! i)
           \<and> m (buffer + of_nat (2 * i + 1)) = ucast (drop_bit 8 (ws ! i))"
    using insw_run[OF n32, of hw ?B buffer ?tr "mem s"] unfolding ok(8) by blast
  obtain vs3 where tr3: "tr3 = map (In8 ?C) vs3 @ map (In16 ?B) (rev ws) @ ?tr"
    using atapi_wait_done_io[OF ok(9)] ws(2) by auto
  have io': "io s' = tr3" and mem': "mem s' = m" and dv: "devices s' = devices s"
    by (simp_all add: ok(10))
  let ?post = "map (In8 ?C) vs3 @ map (In16 ?B) (rev ws)
      @ [In8 (?B + ATA_LBAMID_PORT) mid, In8 (?B + ATA_LBAHI_PORT) hi]"
  let ?old = "Out16 ?B w5 # Out16 ?B w4 # Out16 ?B w3 # Out16 ?B w2 # Out16 ?B w1
      # map (In8 (?B + ATA_COMMAND_PORT)) vs2 @ map (In8 (?B + ATA_COMMAND_PORT)) vs1
      @ pre @ [Out8 (?B + ATA_DRIVE_PORT) (slave_bit ?d)]"
  have split: "io s' = (?post @ Out16 ?B w6 # ?old) @ io s"
    unfolding io' tr3 pk by (simp add: tr2 tr1 pre)
  have ce: "call_events s s' = ?post @ Out16 ?B w6 # ?old"
    using split by (rule call_events_append)
  have clean: "\<forall>e\<in>set ?post. \<not> is_out16 e" by auto
  have sp1: "since_packet (io s') = rev ?post"
    using since_packet_after[OF clean, of ?B w6 "?old @ io s"] split by simp
  have sp2: "since_packet (call_events s s') = rev ?post"
    using since_packet_after[OF clean, of ?B w6 ?old] ce by simp
  have rs1: "reported_size ?d (io s') = Some (unat r)"
    by (simp add: reported_size_def sp1 ok(6) unat_size)
  have rs2: "reported_size ?d (call_events s s') = Some (unat r)"
    by (simp add: reported_size_def sp2 ok(6) unat_size)
  have cnt: "in16_count (io s') = in16_count (io s) + unat r div 2"
    by (simp add: io' tr3 tr2 tr1 ws(1) n)
  have wr: "words_read s s' = ws"
    by (simp add: words_read_def ce pre16)
  have content: "\<forall>i<unat r div 2.
              mem s' (buffer + of_nat (2 * i)) = ucast (words_read s s' ! i)
            \<and> mem s' (buffer + of_nat (2 * i + 1)) = ucast (drop_bit 8 (words_read s s' ! i))"
    using ws(3) by (simp add: wr mem' n)
  have frame: "\<forall>a. \<not> in_region buffer (2 * (unat r div 2)) a \<longrightarrow> mem s' a = mem s a"
    by (simp add: mem' ok(8) n insw_frame)
  show ?thesis
    using small dv rs1 rs2 cnt wr ws(1) n content frame by simp
qed






lemma end_of_lifetime_simps [simp]:
  "io (end_of_lifetime a len dead s) = io s"
  "devices (end_of_lifetime a len dead s) = devices s"
  "mem (end_of_lifetime a len dead s) x = (if in_region a len x then dead x else mem s x)"
  by (simp_all add: end_of_lifetime_def in_region_def)


lemmas poll_simps = atapi_read_block_wait_bsy.simps atapi_read_block_wait_drq.simps
  atapi_read_block_wait_done.simps ata_wait_bsy_clear.simps ata_wait_drq_set.simps

lemmas eval_simps = atapi_read_block_def ata_read_def port_defs poll_simps inb_def inw_def
  outb_def Let_def insw_numeral outsw_numeral ata_wait_numeral signed_divide_int_def
  layout_defs

lemma s_cd_descriptor: "ata_mem s_cd 0x2000 = d_cd"
  by (simp add: s_cd_def d_cd_def layout_defs ATA_TYPE_PATAPI_def)

lemmas detect_simps = ata_detect_def ata_cmd_identify_def ata_select_drive_def ata_software_reset_def
  ata_read_status_def ata_pio_read16_def ata_device_is_packet_def printf_def
  ata_set_type_def ata_set_base_port_def ata_set_control_port_def ata_set_slave_bit_def
  ATA_TYPE_UNKNOWN_def ATA_TYPE_PATAPI_def ATA_TYPE_SATAPI_def ATA_TYPE_PATA_def ATA_TYPE_SATA_def
  ATA_ISBSY_def ATA_ISRDY_def ATA_ISDRQ_def ATA_ISERR_def ATA_CMD_IDENTIFY_def ATA_CMD_PACKET_IDENTIFY_def
  port_defs poll_simps inb_def inw_def outb_def Let_def ata_wait_numeral layout_defs

lemma identify_read_below:
  "j < i \<Longrightarrow> fst (ata_cmd_identify_read hw d i bt) j = fst bt j"
proof (induction hw d i bt rule: ata_cmd_identify_read.induct)
  case (1 hw d i bt)
  show ?case
  proof (cases "i < 256")
    case True
    obtain w tr' where r: "ata_pio_read16 hw d (snd bt) = (w, tr')"
      by (cases "ata_pio_read16 hw d (snd bt)")
    have "fst (ata_cmd_identify_read hw d (Suc i) ((fst bt)(i := w), tr')) j = ((fst bt)(i := w)) j"
      using "1.IH"[OF True r[symmetric] refl] "1.prems" by simp
    then show ?thesis
      using True r "1.prems" by (subst ata_cmd_identify_read.simps) simp
  next
    case False
    then show ?thesis by (subst ata_cmd_identify_read.simps) simp
  qed
qed

lemma identify_read_word0:
  "fst (ata_cmd_identify_read hw d 0 (b, tr)) 0 = resp16 hw tr (base_port d + ATA_DATA_PORT)"
  by (subst ata_cmd_identify_read.simps)
     (simp add: identify_read_below ata_pio_read16_def inw_def Let_def)

lemma ata_read_elim:
  assumes "ata_read hw device sz out s = Some (r, c, s')"
  shows "r = OK \<and> atapi_read_block hw (p device) (pos (ata_mem s (p device))) out sz s = Some (c, s')"
  using assms unfolding ata_read_def
  by (auto simp: Let_def split: Option.bind_splits)

lemma descriptor_outside:
  fixes b out :: "32 word"
  assumes "len \<le> unat (b - out)" and "unat (b - out) + 28 \<le> 2 ^ 32" and "in_region b 28 x"
  shows "\<not> in_region out len x"
proof -
  have k: "unat (x - b) < 28" using assms(3) by (simp add: in_region_def)
  have "unat ((b - out) + (x - b)) = unat (b - out) + unat (x - b)"
    using assms(2) k by (intro unat_add_lem[THEN iffD1]) simp
  moreover have "(b - out) + (x - b) = x - out" by simp
  ultimately have "unat (x - out) = unat (b - out) + unat (x - b)" by simp
  then show ?thesis using assms(1) by (simp add: in_region_def)
qed


lemma ata_wait_bsy_clear_exit:
  "\<not> ATA_ISBSY (resp8 hw tr (base_port d + ATA_COMMAND_PORT)) \<Longrightarrow>
   ata_wait_bsy_clear hw d tr =
     Some (resp8 hw tr (base_port d + ATA_COMMAND_PORT),
           In8 (base_port d + ATA_COMMAND_PORT) (resp8 hw tr (base_port d + ATA_COMMAND_PORT)) # tr)"
  by (subst ata_wait_bsy_clear.simps) (simp add: ata_read_status_def inb_def Let_def)

lemma atapi_wait_bsy_exit:
  "resp8 hw tr (base_port d + ATA_COMMAND_PORT) AND 0x80 = 0 \<Longrightarrow>
   atapi_read_block_wait_bsy hw d tr =
     Some (resp8 hw tr (base_port d + ATA_COMMAND_PORT),
           In8 (base_port d + ATA_COMMAND_PORT) (resp8 hw tr (base_port d + ATA_COMMAND_PORT)) # tr)"
  by (subst atapi_read_block_wait_bsy.simps) (simp add: inb_def Let_def)

lemma atapi_wait_drq_exit:
  "resp8 hw tr (base_port d + ATA_COMMAND_PORT) AND 0x8 \<noteq> 0
     \<or> resp8 hw tr (base_port d + ATA_COMMAND_PORT) AND 0x1 \<noteq> 0 \<Longrightarrow>
   atapi_read_block_wait_drq hw d tr =
     Some (resp8 hw tr (base_port d + ATA_COMMAND_PORT),
           In8 (base_port d + ATA_COMMAND_PORT) (resp8 hw tr (base_port d + ATA_COMMAND_PORT)) # tr)"
  by (subst atapi_read_block_wait_drq.simps) (auto simp add: inb_def Let_def)

lemma identify_stalls_on_busy: "ata_cmd_identify (hw_const 0x80) d buf tr = None"
  by (simp add: ata_cmd_identify_def Let_def polls_stuck_concrete(1))

lemma identify_stalls_on_drq:
  "ata_cmd_identify (hw_status (base_port d + ATA_COMMAND_PORT) 0x40) d buf tr = None"
proof -
  let ?hw = "hw_status (base_port d + ATA_COMMAND_PORT) 0x40"
  have st: "resp8 ?hw t (base_port d + ATA_COMMAND_PORT) = 0x40" for t
    by (simp add: hw_status_def)
  have mid: "resp8 ?hw t (base_port d + ATA_LBAMID_PORT) = 0"
    and hi: "resp8 ?hw t (base_port d + ATA_LBAHI_PORT) = 0" for t
    by (simp_all add: hw_status_def port_defs)
  have stuck: "ata_wait_drq_set ?hw d t = None" for t
    by (rule ata_wait_drq_set_stuck) (simp add: st ATA_ISDRQ_def ATA_ISERR_def)
  have exit: "ata_wait_bsy_clear ?hw d t = Some (0x40, In8 (base_port d + ATA_COMMAND_PORT) 0x40 # t)" for t
    using ata_wait_bsy_clear_exit[of ?hw t d] by (simp add: st ATA_ISBSY_def)
  show ?thesis
    by (simp add: ata_cmd_identify_def Let_def exit ATA_ISERR_def inb_def mid hi stuck)
qed

lemma detect_stalls_on_busy: "ata_detect (hw_const 0x80) bport cport sbit a buf s = None"
  by (simp add: ata_detect_def Let_def polls_stuck_concrete(1))

lemma read_block_stalls_on_busy: "atapi_read_block (hw_const 0x80) dv lba out maxlen s = None"
  by (simp add: atapi_read_block_def Let_def polls_stuck_concrete(3))

lemma read_block_stalls_on_drq: "atapi_read_block (hw_const 0) dv lba out maxlen s = None"
  by (simp add: atapi_read_block_def Let_def atapi_wait_bsy_exit hw_const_def
        polls_stuck_concrete(4)[unfolded hw_const_def])

lemma read_block_stalls_on_done: "atapi_read_block (hw_const 0x08) dv lba out maxlen s = None"
  by (simp add: atapi_read_block_def Let_def atapi_wait_bsy_exit atapi_wait_drq_exit hw_const_def
        inb_def case_prod_beta polls_stuck_concrete(5)[unfolded hw_const_def])

section \<open>The claims\<close>

subsection \<open>C1: how much a read writes, and the capacity it reports\<close>

text \<open>
  C1, as stated, fails: \<open>atapi_read_block\<close> passes the size the drive reports to \<open>insw\<close>
  without comparing it with \<open>maxlen\<close>. A drive that reports 4 bytes to a caller whose
  capacity is 2 makes \<open>ata_read\<close> store a byte at offset 2 of the buffer, outside the
  caller's capacity.
\<close>

theorem read_overruns_capacity:
  "ata_read (hw_cdrom 4) dev_cd 2 0x1000 s_cd \<noteq> None
   \<and> \<not> in_region 0x1000 (unat (2 :: 32 word)) 0x1002
   \<and> mem (snd (snd (the (ata_read (hw_cdrom 4) dev_cd 2 0x1000 s_cd)))) 0x1002 \<noteq> mem s_cd 0x1002"
  by (simp add: eval_simps hw_cdrom_def dev_cd_def s_cd_def in_region_def)

text \<open>
  C1, amended. A read that returns wrote nothing when the PACKET handshake ended in an
  error (the capacity field then holds \<open>-1\<close>). Otherwise the capacity field holds exactly the
  size \<open>n < 65536\<close> the drive reported through the LBA-high/mid ports, and every byte
  outside the first \<open>2 * (n div 2)\<close> bytes of the buffer is unchanged; so nothing is written
  beyond the caller's capacity whenever the drive keeps to it (\<open>n \<le> cap\<close>), which the code
  asks of the drive (the byte-count limit) and does not check.
\<close>

theorem read_writes_reported_size:
  assumes "ata_read hw device cap out s = Some (r, cap', s')"
  shows "(cap' = - 1 \<longrightarrow> mem s' = mem s)
       \<and> (cap' \<noteq> - 1 \<longrightarrow>
            reported_size (ata_mem s (p device)) (io s') = Some (unat cap')
          \<and> unat cap' < 65536
          \<and> (\<forall>a. \<not> in_region out (2 * (unat cap' div 2)) a \<longrightarrow> mem s' a = mem s a)
          \<and> (unat cap' \<le> unat cap \<longrightarrow> (\<forall>a. \<not> in_region out (unat cap) a \<longrightarrow> mem s' a = mem s a)))"
proof -
  let ?d = "ata_mem s (p device)"
  have rb: "atapi_read_block hw (p device) (pos ?d) out cap s = Some (cap', s')"
    using ata_read_elim[OF assms] by simp
  have err: "cap' = - 1 \<longrightarrow> mem s' = mem s"
    using atapi_read_block_error[OF rb] by simp
  have ok: "cap' \<noteq> - 1 \<longrightarrow>
            reported_size ?d (io s') = Some (unat cap')
          \<and> unat cap' < 65536
          \<and> (\<forall>a. \<not> in_region out (2 * (unat cap' div 2)) a \<longrightarrow> mem s' a = mem s a)"
    using atapi_read_block_success[OF rb] by simp
  have within: "\<not> in_region out (unat cap) a \<Longrightarrow> \<not> in_region out (2 * (unat cap' div 2)) a"
    if "unat cap' \<le> unat cap" for a
    using that by (simp add: in_region_def)
  show ?thesis using err ok within by blast
qed

text \<open>The amended C1 at a drive that reports 4 bytes to a caller with capacity 2048.\<close>

theorem read_writes_reported_size_witness:
  "ata_read (hw_cdrom 4) dev_cd 2048 0x1000 s_cd \<noteq> None
   \<and> fst (snd (the (ata_read (hw_cdrom 4) dev_cd 2048 0x1000 s_cd))) = 4
   \<and> reported_size (ata_mem s_cd (p dev_cd)) (io (snd (snd (the (ata_read (hw_cdrom 4) dev_cd 2048 0x1000 s_cd))))) = Some 4
   \<and> mem (snd (snd (the (ata_read (hw_cdrom 4) dev_cd 2048 0x1000 s_cd)))) 0x1800 = mem s_cd 0x1800"
proof -
  let ?res = "ata_read (hw_cdrom 4) dev_cd 2048 0x1000 s_cd"
  have ev: "?res \<noteq> None" "fst (snd (the ?res)) = 4"
    by (simp_all add: eval_simps hw_cdrom_def dev_cd_def s_cd_def)
  then have h: "?res = Some (fst (the ?res), fst (snd (the ?res)), snd (snd (the ?res)))"
    by auto
  have nr: "\<not> in_region (0x1000 :: 32 word) (unat (2048 :: 32 word)) 0x1800"
    by (simp add: in_region_def)
  from read_writes_reported_size[OF h] ev nr show ?thesis
    by simp
qed

subsection \<open>C2: detection and the signature bytes\<close>

text \<open>
  C2 (the code departs from the claim): \<open>ata_detect\<close> has no branch for a signature pair
  outside the four known ones; \<open>type\<close> keeps the value it had on entry and detection goes
  on. On a descriptor whose \<open>type\<close> is \<open>ATA_TYPE_UNKNOWN\<close>, a drive with the signature
  \<open>(0x12, 0x34)\<close> that then answers IDENTIFY makes \<open>ata_detect\<close> return 1 with the
  classification still Unknown.
\<close>

theorem detect_accepts_unknown_signature:
  "map_option (\<lambda>(r, s'). (r, type (ata_mem s' 0x2000)))
     (ata_detect hw_odd_signature 0x1F0 0x3F6 0 0x2000 (\<lambda>i. 0) s_boot) = Some (1, ATA_TYPE_UNKNOWN)"
  by (simp add: detect_simps hw_odd_signature_def s_boot_def case_prod_beta identify_read_word0)

subsection \<open>C3: a protocol error during a read\<close>

text \<open>
  C3 (the code departs from the claim): when the drive sets the error bit during the
  PACKET handshake (status \<open>0x41\<close>), \<open>atapi_read_block\<close> returns \<open>-1\<close>, and \<open>ata_read\<close>
  stores that in \<open>*size\<close> and returns \<open>OK\<close>.
\<close>

theorem read_reports_ok_on_error:
  "map_option (\<lambda>(r, c, s'). (r, c)) (ata_read (hw_const 0x41) dev_cd 2048 0x1000 s_cd) = Some (OK, - 1)"
  by (simp add: eval_simps hw_const_def dev_cd_def s_cd_def)

subsection \<open>C4: write\<close>

text \<open>
  C4 (the code departs from the claim): \<open>ata_write\<close> leaves the state alone, and what it
  returns is whatever the return register held; when that is \<open>OK\<close> the caller sees a
  success.
\<close>

theorem write_returns_register_content:
  "ata_write junk device sz out s = (junk, sz, s) \<and> fst (ata_write OK dev_cd 512 0x1000 s_cd) = OK"
  by (simp add: ata_write_def)

subsection \<open>C5: a failed IDENTIFY\<close>

text \<open>
  C5 (the code departs from the claim): on a slot where every port reads 0, IDENTIFY fails
  (status 0) and \<open>ata_detect\<close> logs it, then validates the uninitialised buffer and returns
  1; \<open>ata_install\<close> registers all four slots.
\<close>

theorem detect_ignores_identify_failure:
  "map_option (\<lambda>(r, s'). (r, Print ''Error while identifying device\<newline>'' \<in> set (io s')))
     (ata_detect (hw_const 0) 0x1F0 0x3F6 0 0x2000 (\<lambda>i. 0) s_boot) = Some (1, True)
   \<and> map_option (\<lambda>s'. map name (devices s'))
       (ata_install (hw_const 0) lim_ex 0x2000 (\<lambda>k i. 0) dead_ex s_boot)
      = Some [''ATA-0'', ''ATA-1'', ''ATA-2'', ''ATA-3'']"
  by (simp add: ata_install_def ata_register_device_def device_register_def detect_simps
          hw_const_def s_boot_def lim_ex_def end_of_lifetime_def)

subsection \<open>C6: the polling loops have no bound\<close>

text \<open>
  C6: each polling loop of the protocol engine never returns on a drive whose status keeps
  the awaited bit away: busy always set (\<open>0x80\<close>) for the two busy waits, neither data
  request nor error (\<open>0\<close>) for the two data-request waits, data request never cleared
  (\<open>0x08\<close>) for the completion poll. The operations around them (\<open>ata_detect\<close>,
  \<open>ata_cmd_identify\<close>, \<open>atapi_read_block\<close>, \<open>ata_read\<close>, \<open>ata_install\<close>) do not return
  either.
\<close>

theorem polling_loops_unbounded:
  "ata_wait_bsy_clear (hw_const 0x80) d tr = None
   \<and> ata_wait_drq_set (hw_const 0) d tr = None
   \<and> atapi_read_block_wait_bsy (hw_const 0x80) d tr = None
   \<and> atapi_read_block_wait_drq (hw_const 0) d tr = None
   \<and> atapi_read_block_wait_done (hw_const 0x08) d tr = None
   \<and> ata_detect (hw_const 0x80) bport cport sbit a buf s = None
   \<and> ata_cmd_identify (hw_const 0x80) d buf tr = None
   \<and> ata_cmd_identify (hw_status (base_port d + ATA_COMMAND_PORT) 0x40) d buf tr = None
   \<and> atapi_read_block (hw_const 0x80) a lba out maxlen s = None
   \<and> atapi_read_block (hw_const 0) a lba out maxlen s = None
   \<and> atapi_read_block (hw_const 0x08) a lba out maxlen s = None
   \<and> ata_read (hw_const 0x80) device maxlen out s = None
   \<and> ata_install (hw_const 0x80) lim a bufs dead s = None"
  by (simp add: polls_stuck_concrete identify_stalls_on_busy identify_stalls_on_drq
        detect_stalls_on_busy read_block_stalls_on_busy read_block_stalls_on_drq
        read_block_stalls_on_done ata_read_def ata_install_def Let_def)

text \<open>C6 at the packet drive descriptor and the initial states.\<close>

theorem polling_loops_unbounded_witness:
  "ata_wait_bsy_clear (hw_const 0x80) d_cd [] = None
   \<and> ata_wait_drq_set (hw_const 0) d_cd [] = None
   \<and> atapi_read_block_wait_done (hw_const 0x08) d_cd [] = None
   \<and> ata_cmd_identify (hw_status 0x1F7 0x40) d_cd (\<lambda>i. 0) [] = None
   \<and> ata_read (hw_const 0x80) dev_cd 2048 0x1000 s_cd = None
   \<and> ata_install (hw_const 0x80) \<lparr>DEVICE_NAME_MAX = 32, DEVICE_MAX = 16\<rparr> 0x2000 (\<lambda>k i. 0) (\<lambda>a. 0) s_boot = None"
  using polling_loops_unbounded[where d = d_cd and tr = "[]" and bport = "0x1F0" and cport = "0x3F6"
      and sbit = 0 and a = "0x2000" and buf = "\<lambda>i. 0" and s = s_cd and lba = 0 and out = "0x1000"
      and maxlen = 2048 and device = dev_cd and lim = "\<lparr>DEVICE_NAME_MAX = 32, DEVICE_MAX = 16\<rparr>"
      and bufs = "\<lambda>k i. 0" and dead = "\<lambda>a. 0"]
    polling_loops_unbounded[where d = d_cd and tr = "[]" and bport = "0x1F0" and cport = "0x3F6"
      and sbit = 0 and a = "0x2000" and buf = "\<lambda>i. 0" and s = s_boot and lba = 0 and out = "0x1000"
      and maxlen = 2048 and device = dev_cd and lim = "\<lparr>DEVICE_NAME_MAX = 32, DEVICE_MAX = 16\<rparr>"
      and bufs = "\<lambda>k i. 0" and dead = "\<lambda>a. 0"]
  by (simp add: d_cd_def port_defs)

subsection \<open>C7: seek, then read\<close>

text \<open>
  C7: for every device and position \<open>P\<close>, \<open>ata_seek\<close> returns \<open>OK\<close> and stores \<open>P\<close> as the
  cursor, and the read that follows is \<open>atapi_read_block\<close> called with \<open>P\<close> as its block
  address.
\<close>

theorem seek_then_read_uses_position:
  "fst (ata_seek device P s) = OK
   \<and> pos (ata_mem (snd (ata_seek device P s)) (p device)) = P
   \<and> ata_read hw device cap out (snd (ata_seek device P s)) =
       atapi_read_block hw (p device) P out cap (snd (ata_seek device P s))
        \<bind> (\<lambda>(r, s'). Some (OK, r, s'))"
  by (simp add: ata_seek_def ata_read_def Let_def)

text \<open>C7 at \<open>P = 0x01020304\<close>: the six words of the packet sent to the drive carry
  \<open>P\<close> big-endian in bytes 2 to 5.\<close>

theorem seek_then_read_uses_position_witness:
  "fst (ata_seek dev_cd 0x01020304 s_cd) = OK
   \<and> map_option (\<lambda>(r, c, s'). (r, c, rev (out16_values (io s'))))
        (ata_read (hw_cdrom 4) dev_cd 2048 0x1000 (snd (ata_seek dev_cd 0x01020304 s_cd)))
      = Some (OK, 4, [0x00A8, 0x0201, 0x0403, 0, 0x0100, 0])"
  using seek_then_read_uses_position[of dev_cd "0x01020304" s_cd "hw_cdrom 4" 2048 "0x1000"]
  by (simp add: eval_simps ata_seek_def ata_set_pos_def hw_cdrom_def dev_cd_def s_cd_def)

subsection \<open>C8: what a read does to the descriptors\<close>

text \<open>
  C8, as stated, fails. The transfer stores as many bytes as the drive reports (C1), through
  the caller's buffer pointer, and a \<open>struct ata_device\<close> lives in the same memory. With a
  2-byte buffer at \<open>0x1FFE\<close>, just below the descriptor at \<open>0x2000\<close>, and a drive that
  reports 4 bytes, the second word lands on the \<open>type\<close> field: the read returns, and the
  classification of the device it was called on has changed from PATAPI to \<open>0xBEEF\<close>.
\<close>

theorem read_overwrites_descriptor:
  "ata_read (hw_cdrom 4) dev_cd 2 0x1FFE s_cd \<noteq> None
   \<and> fst (snd (the (ata_read (hw_cdrom 4) dev_cd 2 0x1FFE s_cd))) = 4
   \<and> type (ata_mem s_cd 0x2000) = ATA_TYPE_PATAPI
   \<and> type (ata_mem (snd (snd (the (ata_read (hw_cdrom 4) dev_cd 2 0x1FFE s_cd)))) 0x2000) = 0xBEEF
   \<and> ata_mem (snd (snd (the (ata_read (hw_cdrom 4) dev_cd 2 0x1FFE s_cd)))) (p dev_cd)
       \<noteq> ata_mem s_cd (p dev_cd)"
  by (simp add: eval_simps hw_cdrom_def dev_cd_def s_cd_def ATA_TYPE_PATAPI_def)

text \<open>
  C8, amended. A read that returns after a protocol error (capacity field \<open>-1\<close>) leaves
  every descriptor as it was. Otherwise, with \<open>n\<close> the size the drive reported (the new
  capacity field), the descriptor at any address \<open>b\<close> keeps all its fields whenever its 28
  bytes lie outside the first \<open>2 * (n div 2)\<close> bytes of the buffer: counted upwards from
  \<open>out\<close> modulo \<open>2^32\<close>, \<open>b\<close> comes no earlier than that, and the descriptor ends before the
  count wraps around. That is so in particular when the drive keeps to the capacity
  (\<open>n \<le> cap\<close>) and the descriptor lies outside the \<open>cap\<close> bytes the caller offered. No
  statement of the source stores to a descriptor during a read: the only stores are those of
  \<open>insw\<close>. (\<open>*size\<close> is passed and returned by value, as in the definition of \<open>ata_read\<close>.)
\<close>

theorem read_preserves_separate_descriptors:
  assumes "ata_read hw device cap out s = Some (r, cap', s')"
  shows "(cap' = - 1 \<longrightarrow> ata_mem s' = ata_mem s)
       \<and> (cap' \<noteq> - 1 \<and> 2 * (unat cap' div 2) \<le> unat (b - out)
            \<and> unat (b - out) + sizeof_ata_device \<le> 2 ^ 32
          \<longrightarrow> ata_mem s' b = ata_mem s b)
       \<and> (cap' \<noteq> - 1 \<and> unat cap' \<le> unat cap \<and> unat cap \<le> unat (b - out)
            \<and> unat (b - out) + sizeof_ata_device \<le> 2 ^ 32
          \<longrightarrow> ata_mem s' b = ata_mem s b)"
proof -
  let ?d = "ata_mem s (p device)"
  have rb: "atapi_read_block hw (p device) (pos ?d) out cap s = Some (cap', s')"
    using ata_read_elim[OF assms] by simp
  have err: "ata_mem s' = ata_mem s" if "cap' = - 1"
    using atapi_read_block_error[OF rb that] by (intro ext) (simp add: ata_mem_def)
  have ok: "ata_mem s' b = ata_mem s b"
    if ne: "cap' \<noteq> - 1" and lo: "2 * (unat cap' div 2) \<le> unat (b - out)"
      and hi: "unat (b - out) + sizeof_ata_device \<le> 2 ^ 32"
  proof -
    have fr: "\<not> in_region out (2 * (unat cap' div 2)) a \<Longrightarrow> mem s' a = mem s a" for a
      using atapi_read_block_success[OF rb ne] by simp
    have "mem s' x = mem s x" if "in_region b 28 x" for x
      using descriptor_outside[OF lo _ that] hi fr by (simp add: sizeof_ata_device_def)
    then show ?thesis
      unfolding ata_mem_def by (rule load_ata_device_footprint)
  qed
  have ok': "ata_mem s' b = ata_mem s b"
    if "cap' \<noteq> - 1" "unat cap' \<le> unat cap" "unat cap \<le> unat (b - out)"
      "unat (b - out) + sizeof_ata_device \<le> 2 ^ 32"
    using that by (intro ok) simp_all
  show ?thesis using err ok ok' by blast
qed

text \<open>The amended C8 at the descriptor at \<open>0x2000\<close>, for a read into a 2048-byte buffer at
  \<open>0x1000\<close> that succeeds and for one that ends in a protocol error.\<close>

theorem read_preserves_separate_descriptors_witness:
  "ata_read (hw_cdrom 4) dev_cd 2048 0x1000 s_cd \<noteq> None
   \<and> fst (snd (the (ata_read (hw_cdrom 4) dev_cd 2048 0x1000 s_cd))) = 4
   \<and> ata_mem (snd (snd (the (ata_read (hw_cdrom 4) dev_cd 2048 0x1000 s_cd)))) 0x2000 = d_cd
   \<and> ata_read (hw_const 0x41) dev_cd 2048 0x1000 s_cd \<noteq> None
   \<and> fst (snd (the (ata_read (hw_const 0x41) dev_cd 2048 0x1000 s_cd))) = - 1
   \<and> ata_mem (snd (snd (the (ata_read (hw_const 0x41) dev_cd 2048 0x1000 s_cd)))) = ata_mem s_cd"
proof -
  let ?ok = "ata_read (hw_cdrom 4) dev_cd 2048 0x1000 s_cd"
  let ?er = "ata_read (hw_const 0x41) dev_cd 2048 0x1000 s_cd"
  have ev: "?ok \<noteq> None" "fst (snd (the ?ok)) = 4" "?er \<noteq> None" "fst (snd (the ?er)) = - 1"
    by (simp_all add: eval_simps hw_cdrom_def hw_const_def dev_cd_def s_cd_def)
  then have h1: "?ok = Some (fst (the ?ok), fst (snd (the ?ok)), snd (snd (the ?ok)))"
    and h2: "?er = Some (fst (the ?er), fst (snd (the ?er)), snd (snd (the ?er)))"
    by auto
  have sep: "2 * (unat (4 :: 32 word) div 2) \<le> unat (0x2000 - 0x1000 :: 32 word)"
    "unat (2048 :: 32 word) \<le> unat (0x2000 - 0x1000 :: 32 word)"
    "unat (0x2000 - 0x1000 :: 32 word) + sizeof_ata_device \<le> 2 ^ 32"
    by (simp_all add: sizeof_ata_device_def)
  from read_preserves_separate_descriptors[OF h1, of "0x2000"]
    read_preserves_separate_descriptors[OF h2, of "0x2000"] ev sep s_cd_descriptor
  show ?thesis by simp
qed

subsection \<open>C9: one descriptor behind every registered device\<close>




subsection \<open>C10: an odd transfer size\<close>



end
